theory Spec2Isabelle
  imports Complex_Main "HOL-Library.Signed_Division"
begin

section \<open>Go values used by package weather\<close>

subsection \<open>float64\<close>

text \<open>
  The program never does arithmetic on a float64: it compares one with the constants 10
  and 25, converts one to an integer, and prints one. A float64 is therefore modelled by
  what it denotes: \<open>Finite q\<close> is the finite value with the exact rational value \<open>q\<close>
  (\<open>Finite 0\<close> is the positive zero), \<open>NegZero\<close> is the negative zero, and the three
  special values follow. The float64 values are the \<open>Finite q\<close> with \<open>q\<close> of the form
  \<open>m * 2 ^ e\<close> in the IEEE 754 binary64 range; statements over all of the type hold for
  them in particular.
\<close>

datatype float64 = Finite rat | NegZero | PosInf | NegInf | NaN

fun f64_value :: "float64 \<Rightarrow> rat" where
  "f64_value (Finite q) = q"
| "f64_value _ = 0"

text \<open>Go's \<open><=\<close> and \<open><\<close> on float64: every comparison with a NaN is false.\<close>

fun f64_le :: "float64 \<Rightarrow> float64 \<Rightarrow> bool" where
  "f64_le NaN _ = False"
| "f64_le _ NaN = False"
| "f64_le NegInf _ = True"
| "f64_le _ PosInf = True"
| "f64_le PosInf _ = False"
| "f64_le _ NegInf = False"
| "f64_le x y = (f64_value x \<le> f64_value y)"

fun f64_lt :: "float64 \<Rightarrow> float64 \<Rightarrow> bool" where
  "f64_lt NaN _ = False"
| "f64_lt _ NaN = False"
| "f64_lt PosInf _ = False"
| "f64_lt _ NegInf = False"
| "f64_lt NegInf _ = True"
| "f64_lt _ PosInf = True"
| "f64_lt x y = (f64_value x < f64_value y)"

subsection \<open>Conversion of a float64 to an integer\<close>

text \<open>
  \<open>int(x)\<close> and \<open>int64(x)\<close> discard the fraction of \<open>x\<close> (truncation towards zero).
  \<open>int\<close> is taken 64 bits wide, as on every 64-bit target. Where the truncated value
  does not fit, or \<open>x\<close> is a NaN or an infinity, the Go specification leaves the result
  to the implementation: it is the parameter \<open>oor\<close> of the model (on amd64 it is the
  least int64 throughout, \<open>oor_amd64\<close>).
\<close>

definition trunc_rat :: "rat \<Rightarrow> int" where
  "trunc_rat q = (if 0 \<le> q then \<lfloor>q\<rfloor> else - \<lfloor>- q\<rfloor>)"

definition in_int64 :: "int \<Rightarrow> bool" where
  "in_int64 i = (- (2 ^ 63) \<le> i \<and> i < 2 ^ 63)"

fun float64_to_int :: "(float64 \<Rightarrow> int) \<Rightarrow> float64 \<Rightarrow> int" where
  "float64_to_int oor (Finite q) =
     (if in_int64 (trunc_rat q) then trunc_rat q else oor (Finite q))"
| "float64_to_int oor NegZero = 0"
| "float64_to_int oor x = oor x"

definition oor_amd64 :: "float64 \<Rightarrow> int" where
  "oor_amd64 x = - (2 ^ 63)"

subsection \<open>Printing an integer: the verb \<open>%v\<close> on an int\<close>

definition digit_char :: "nat \<Rightarrow> char" where
  "digit_char d = ''0123456789'' ! d"

fun fmt_nat :: "nat \<Rightarrow> string" where
  "fmt_nat n = (if n < 10 then [digit_char n] else fmt_nat (n div 10) @ [digit_char (n mod 10)])"

declare fmt_nat.simps [simp del]

definition fmt_int :: "int \<Rightarrow> string" where
  "fmt_int i = (if i < 0 then CHR ''-'' # fmt_nat (nat (- i)) else fmt_nat (nat i))"

subsection \<open>The float64 nearest to a decimal\<close>

text \<open>
  The JSON decoder and \<open>strconv.ParseFloat\<close> turn a decimal literal into the nearest
  float64, ties going to the even mantissa (IEEE 754 round-to-nearest-even). It is how a
  document's number such as 15.3, which is no float64 itself, is written below.
\<close>

definition pow_int :: "rat \<Rightarrow> int \<Rightarrow> rat" where
  "pow_int b k = (if 0 \<le> k then b ^ nat k else 1 / b ^ nat (- k))"

fun count_digits :: "nat \<Rightarrow> nat \<Rightarrow> nat" where
  "count_digits b n = (if n < b \<or> b < 2 then 1 else Suc (count_digits b (n div b)))"

declare count_digits.simps [simp del]

text \<open>\<open>floor_log b a\<close> is the \<open>k\<close> with \<open>b ^ k \<le> a < b ^ (k + 1)\<close>, for \<open>a > 0\<close>.\<close>

definition floor_log :: "nat \<Rightarrow> rat \<Rightarrow> int" where
  "floor_log b a =
     (if 1 \<le> a then int (count_digits b (nat \<lfloor>a\<rfloor>)) - 1
      else let j = int (count_digits b (nat \<lfloor>1 / a\<rfloor>)) - 1
           in if pow_int (of_nat b) (- j) \<le> a then - j else - j - 1)"

definition round_half_even :: "rat \<Rightarrow> int" where
  "round_half_even x =
     (let f = \<lfloor>x\<rfloor>; r = x - of_int f
      in if r < 1 / 2 then f else if 1 / 2 < r then f + 1 else if even f then f else f + 1)"

text \<open>
  The binary exponent of a positive value, not below that of the subnormals, and the
  distance between neighbouring float64 values there.
\<close>

definition f64_exponent :: "rat \<Rightarrow> int" where
  "f64_exponent a = max (floor_log 2 a) (- 1022)"

definition f64_ulp :: "rat \<Rightarrow> rat" where
  "f64_ulp a = pow_int 2 (f64_exponent a - 52)"

definition nearest_float64 :: "rat \<Rightarrow> float64" where
  "nearest_float64 x =
     (if x = 0 then Finite 0
      else let a = \<bar>x\<bar>; u = f64_ulp a; m = round_half_even (a / u); v = of_int m * u
           in if pow_int 2 1024 \<le> v then (if x < 0 then NegInf else PosInf)
              else if m = 0 then (if x < 0 then NegZero else Finite 0)
              else Finite (if x < 0 then - v else v))"

subsection \<open>Printing a float64: the verbs \<open>%v\<close> and \<open>%.6f\<close>\<close>

text \<open>
  \<open>%v\<close> on a float64 is \<open>strconv.FormatFloat(x, 'g', -1, 64)\<close>: the shortest decimal
  that reads back as \<open>x\<close>, that is, that lies in the interval of the reals rounding to
  \<open>x\<close> (its bounds belong to it when the mantissa of \<open>x\<close> is even); where both the
  decimal below and the one above \<open>x\<close> of that length do, the nearer. It is laid out
  with an exponent when the decimal exponent is below -4 or at least 6.
\<close>

definition f64_interval :: "rat \<Rightarrow> rat \<times> rat \<times> bool" where
  "f64_interval a =
     (let e = f64_exponent a; u = f64_ulp a; m = a / u;
          lower = a - (if m = 2 ^ 52 \<and> - 1022 < e then u / 4 else u / 2);
          upper = a + u / 2
      in (lower, upper, even \<lfloor>m\<rfloor>))"

definition in_interval :: "rat \<times> rat \<times> bool \<Rightarrow> rat \<Rightarrow> bool" where
  "in_interval I y =
     (case I of (lower, upper, inclusive) \<Rightarrow>
        if inclusive then lower \<le> y \<and> y \<le> upper else lower < y \<and> y < upper)"

function shortest_decimal :: "rat \<Rightarrow> int \<Rightarrow> nat \<Rightarrow> nat \<times> int" where
  "shortest_decimal a k10 n =
     (let x10 = k10 + 1 - int n; u = pow_int 10 x10; lo = \<lfloor>a / u\<rfloor>;
          down = in_interval (f64_interval a) (of_int lo * u);
          up = in_interval (f64_interval a) (of_int (lo + 1) * u)
      in if down \<and> up then (nat (round_half_even (a / u)), x10)
         else if down then (nat lo, x10)
         else if up then (nat (lo + 1), x10)
         else if 17 \<le> n then (nat (round_half_even (a / u)), x10)
         else shortest_decimal a k10 (n + 1))"
  by pat_completeness auto
termination
  by (relation "measure (\<lambda>(a, k10, n). 17 - n)") auto

declare shortest_decimal.simps [simp del]

definition shortest_digits :: "rat \<Rightarrow> nat \<times> int" where
  "shortest_digits a = shortest_decimal a (floor_log 10 a) 1"

definition strip_trailing_zeros :: "string \<Rightarrow> string" where
  "strip_trailing_zeros s = rev (dropWhile (\<lambda>c. c = CHR ''0'') (rev s))"

definition fmt_exp :: "int \<Rightarrow> string" where
  "fmt_exp e =
     CHR ''e'' # (if e < 0 then CHR ''-'' else CHR ''+'') #
       (if \<bar>e\<bar> < 10 then CHR ''0'' # fmt_nat (nat \<bar>e\<bar>) else fmt_nat (nat \<bar>e\<bar>))"

definition fmt_g_shortest :: "string \<Rightarrow> int \<Rightarrow> string" where
  "fmt_g_shortest ds dp =
     (let exp = dp - 1
      in if exp < - 4 \<or> 6 \<le> exp
         then (case ds of
                 [] \<Rightarrow> CHR ''0'' # fmt_exp 0
               | c # cs \<Rightarrow> c # (if cs = [] then [] else CHR ''.'' # cs) @ fmt_exp exp)
         else if dp \<le> 0 then ''0.'' @ replicate (nat (- dp)) (CHR ''0'') @ ds
         else if nat dp < length ds then take (nat dp) ds @ CHR ''.'' # drop (nat dp) ds
         else ds @ replicate (nat dp - length ds) (CHR ''0''))"

fun fmt_v_float :: "float64 \<Rightarrow> string" where
  "fmt_v_float NaN = ''NaN''"
| "fmt_v_float PosInf = ''+Inf''"
| "fmt_v_float NegInf = ''-Inf''"
| "fmt_v_float NegZero = ''-0''"
| "fmt_v_float (Finite q) =
     (if q = 0 then ''0''
      else let a = \<bar>q\<bar>;
               (d, x10) = shortest_digits a;
               ds = strip_trailing_zeros (fmt_nat d);
               dp = int (length (fmt_nat d)) + x10
           in (if q < 0 then ''-'' else []) @ fmt_g_shortest ds dp)"

text \<open>
  \<open>%.6f\<close> rounds the exact value to six decimals, ties to the even digit, and prints the
  integer part, a point and the six decimals; a NaN and the infinities have no digits.
\<close>

definition pad6 :: "string \<Rightarrow> string" where
  "pad6 s = replicate (6 - length s) (CHR ''0'') @ s"

fun fmt_f6 :: "float64 \<Rightarrow> string" where
  "fmt_f6 NaN = ''NaN''"
| "fmt_f6 PosInf = ''+Inf''"
| "fmt_f6 NegInf = ''-Inf''"
| "fmt_f6 NegZero = ''-0.000000''"
| "fmt_f6 (Finite q) =
     (let r = nat (round_half_even (\<bar>q\<bar> * 1000000))
      in (if q < 0 then ''-'' else []) @
         fmt_nat (r div 1000000) @ ''.'' @ pad6 (fmt_nat (r mod 1000000)))"

text \<open>
  A text with exactly six decimal places: an optional minus sign, at least one digit, a
  point and six digits.
\<close>

definition is_digit :: "char \<Rightarrow> bool" where
  "is_digit c = (c \<in> set ''0123456789'')"

definition six_decimals :: "string \<Rightarrow> bool" where
  "six_decimals s =
     (let u = (case s of [] \<Rightarrow> [] | c # cs \<Rightarrow> if c = CHR ''-'' then cs else s)
      in takeWhile is_digit u \<noteq> [] \<and>
         (case dropWhile is_digit u of
            [] \<Rightarrow> False
          | c # fr \<Rightarrow> c = CHR ''.'' \<and> length fr = 6 \<and> list_all is_digit fr))"

fun is_finite :: "float64 \<Rightarrow> bool" where
  "is_finite (Finite q) = True"
| "is_finite NegZero = True"
| "is_finite _ = False"

subsection \<open>time.Time\<close>

text \<open>
  A \<open>time.Time\<close> is the instant it denotes: seconds since the Unix epoch and nanoseconds
  within the second. \<open>time.Unix(sec, nsec)\<close> brings \<open>nsec\<close> into \<open>[0, 999999999]\<close>.
\<close>

datatype time = Time (unix_sec: int) (unix_nsec: int)

definition time_Unix :: "int \<Rightarrow> int \<Rightarrow> time" where
  "time_Unix sec nsec = Time (sec + nsec div 1000000000) (nsec mod 1000000000)"

subsection \<open>Decoded JSON: the dynamic values behind \<open>interface{}\<close>\<close>

text \<open>
  encoding/json decodes into \<open>map[string]interface{}\<close> with nil, bool, float64, string,
  \<open>[]interface{}\<close> and \<open>map[string]interface{}\<close> as the dynamic values. Indexing a map
  with a key it does not hold yields the nil interface; a type assertion \<open>x.(T)\<close> on a
  value of another dynamic type panics, and so does indexing a slice out of range.
\<close>

datatype jvalue =
    JNil
  | JBool bool
  | JNumber float64
  | JString string
  | JArray "jvalue list"
  | JObject "string \<Rightarrow> jvalue option"

type_synonym jmap = "string \<Rightarrow> jvalue option"

datatype panic = InterfaceConversion | IndexOutOfRange

definition map_index :: "jmap \<Rightarrow> string \<Rightarrow> jvalue" where
  "map_index m k = (case m k of None \<Rightarrow> JNil | Some v \<Rightarrow> v)"

fun assert_map :: "jvalue \<Rightarrow> panic + jmap" where
  "assert_map (JObject m) = Inr m"
| "assert_map _ = Inl InterfaceConversion"

fun assert_slice :: "jvalue \<Rightarrow> panic + jvalue list" where
  "assert_slice (JArray xs) = Inr xs"
| "assert_slice _ = Inl InterfaceConversion"

fun assert_float64 :: "jvalue \<Rightarrow> panic + float64" where
  "assert_float64 (JNumber x) = Inr x"
| "assert_float64 _ = Inl InterfaceConversion"

fun assert_string :: "jvalue \<Rightarrow> panic + string" where
  "assert_string (JString s) = Inr s"
| "assert_string _ = Inl InterfaceConversion"

fun slice_index0 :: "jvalue list \<Rightarrow> panic + jvalue" where
  "slice_index0 [] = Inl IndexOutOfRange"
| "slice_index0 (x # xs) = Inr x"

text \<open>Sequencing: a panic ends the function at the statement that raises it.\<close>

fun and_then :: "panic + 'a \<Rightarrow> ('a \<Rightarrow> panic + 'b) \<Rightarrow> panic + 'b" where
  "and_then (Inl p) f = Inl p"
| "and_then (Inr x) f = f x"

section \<open>The extraction helpers\<close>

text \<open>
  \<^verbatim>\<open>
  func extractVisibility(data map[string]interface{}) string {
      visibility := int(data["visibility"].(float64)) / 1000
      return fmt.Sprintf("%v KM", visibility)
  }
  \<close>
  Go's \<open>/\<close> on integers truncates towards zero: \<open>sdiv\<close>.
\<close>

definition extractVisibility :: "(float64 \<Rightarrow> int) \<Rightarrow> jmap \<Rightarrow> panic + string" where
  "extractVisibility oor data =
     and_then (assert_float64 (map_index data ''visibility'')) (\<lambda>v.
       let visibility = float64_to_int oor v sdiv 1000
       in Inr (fmt_int visibility @ '' KM''))"

text \<open>
  \<^verbatim>\<open>
  func extractCloudCoverage(data map[string]interface{}) string {
      cloudData := data["clouds"].(map[string]interface{})
      cloudCoverage := int(cloudData["all"].(float64))
      return fmt.Sprintf("%v percentage", cloudCoverage)
  }
  \<close>
\<close>

definition extractCloudCoverage :: "(float64 \<Rightarrow> int) \<Rightarrow> jmap \<Rightarrow> panic + string" where
  "extractCloudCoverage oor data =
     and_then (assert_map (map_index data ''clouds'')) (\<lambda>cloudData.
     and_then (assert_float64 (map_index cloudData ''all'')) (\<lambda>a.
       let cloudCoverage = float64_to_int oor a
       in Inr (fmt_int cloudCoverage @ '' percentage'')))"

text \<open>
  \<^verbatim>\<open>
  func extractSunriseSunset(data map[string]interface{}) (time.Time, time.Time) {
      sunriseUnix := int64(data["sys"].(map[string]interface{})["sunrise"].(float64))
      sunsetUnix := int64(data["sys"].(map[string]interface{})["sunset"].(float64))
      sunrise := time.Unix(sunriseUnix, 0)
      sunset := time.Unix(sunsetUnix, 0)
      return sunrise, sunset
  }
  \<close>
\<close>

definition extractSunriseSunset :: "(float64 \<Rightarrow> int) \<Rightarrow> jmap \<Rightarrow> panic + (time \<times> time)" where
  "extractSunriseSunset oor data =
     and_then (assert_map (map_index data ''sys'')) (\<lambda>sys1.
     and_then (assert_float64 (map_index sys1 ''sunrise'')) (\<lambda>r.
     and_then (assert_map (map_index data ''sys'')) (\<lambda>sys2.
     and_then (assert_float64 (map_index sys2 ''sunset'')) (\<lambda>s.
       let sunriseUnix = float64_to_int oor r;
           sunsetUnix = float64_to_int oor s;
           sunrise = time_Unix sunriseUnix 0;
           sunset = time_Unix sunsetUnix 0
       in Inr (sunrise, sunset)))))"

text \<open>
  \<^verbatim>\<open>
  func extractWeatherInfo(data map[string]interface{}) (string, float64) {
      weatherArray := data["weather"].([]interface{})
      weatherDescription := weatherArray[0].(map[string]interface{})["description"].(string)
      temperature := data["main"].(map[string]interface{})["temp"].(float64)
      return weatherDescription, temperature
  }
  \<close>
\<close>

definition extractWeatherInfo :: "jmap \<Rightarrow> panic + (string \<times> float64)" where
  "extractWeatherInfo data =
     and_then (assert_slice (map_index data ''weather'')) (\<lambda>weatherArray.
     and_then (slice_index0 weatherArray) (\<lambda>first.
     and_then (assert_map first) (\<lambda>firstMap.
     and_then (assert_string (map_index firstMap ''description'')) (\<lambda>weatherDescription.
     and_then (assert_map (map_index data ''main'')) (\<lambda>mainData.
     and_then (assert_float64 (map_index mainData ''temp'')) (\<lambda>temperature.
       Inr (weatherDescription, temperature)))))))"

text \<open>
  \<^verbatim>\<open>
  func extractWindInfo(data map[string]interface{}) (string, string) {
      windData := data["wind"].(map[string]interface{})
      windSpeed := windData["speed"].(float64)
      windDirection := int(windData["deg"].(float64))
      return fmt.Sprintf("%v meter/sec", windSpeed), fmt.Sprintf("%v degrees", windDirection)
  }
  \<close>
\<close>

definition extractWindInfo :: "(float64 \<Rightarrow> int) \<Rightarrow> jmap \<Rightarrow> panic + (string \<times> string)" where
  "extractWindInfo oor data =
     and_then (assert_map (map_index data ''wind'')) (\<lambda>windData.
     and_then (assert_float64 (map_index windData ''speed'')) (\<lambda>windSpeed.
     and_then (assert_float64 (map_index windData ''deg'')) (\<lambda>deg.
       let windDirection = float64_to_int oor deg
       in Inr (fmt_v_float windSpeed @ '' meter/sec'', fmt_int windDirection @ '' degrees''))))"

section \<open>Classification\<close>

text \<open>
  \<^verbatim>\<open>
  func classifyWeather(temperature float64) string {
      if temperature <= 10 {
          return "cold"
      } else if temperature <= 25 {
          return "moderate"
      }
      return "hot"
  }
  \<close>
\<close>

definition classifyWeather :: "float64 \<Rightarrow> string" where
  "classifyWeather temperature =
     (if f64_le temperature (Finite 10) then ''cold''
      else if f64_le temperature (Finite 25) then ''moderate''
      else ''hot'')"

section \<open>The fetcher\<close>

record WeatherData =
  WeatherDescription :: string
  Temperature :: string
  WeatherType :: string
  Visibility :: string
  WindSpeed :: string
  WindDirection :: string
  CloudCoverage :: string
  Sunrise :: time
  Sunset :: time

definition API_KEY :: string where
  "API_KEY = ''346f820b8b57367bb052d099256c939d''"

text \<open>
  \<^verbatim>\<open>
  url := fmt.Sprintf("https://api.openweathermap.org/data/2.5/weather?lat=%.6f&lon=%.6f&appid=%s&units=metric", lat, lon, API_KEY)
  \<close>
\<close>

definition weather_url :: "float64 \<Rightarrow> float64 \<Rightarrow> string" where
  "weather_url lat lon =
     ''https://api.openweathermap.org/data/2.5/weather?lat='' @ fmt_f6 lat @
     ''&lon='' @ fmt_f6 lon @ ''&appid='' @ API_KEY @ ''&units=metric''"

text \<open>
  An error value is opaque to the program, which only tests it against nil; the one
  it makes itself is the context's \<open>DeadlineExceeded\<close>.
\<close>

datatype go_error = Err string | ContextDeadlineExceeded

text \<open>
  The network is an input of the model: what \<open>http.Get\<close> on a URL and the JSON decoder
  on the body it returns come to. \<open>http.Get\<close> fails on a transport error only, whatever
  the status of the reply; decoding fails on a body that is no JSON object (a JSON
  \<open>null\<close> leaves the map nil, which indexes like the empty map).
\<close>

datatype upstream = GetFailed go_error | DecodeFailed go_error | Decoded jmap

text \<open>A call returns its results or panics.\<close>

datatype 'a go_result = Returns 'a | Panics panic

text \<open>
  \<^verbatim>\<open>
  func getWeather(lat, lon float64) (*WeatherData, error) {
      url := fmt.Sprintf(...)
      response, err := http.Get(url)
      if err != nil {
          log.Printf("HTTP request failed: %v", err)
          return nil, err
      }
      defer response.Body.Close()
      var data map[string]interface{}
      if err := json.NewDecoder(response.Body).Decode(&data); err != nil {
          log.Printf("Failed to decode JSON: %v", err)
          return nil, err
      }
      weatherDescription, temperature := extractWeatherInfo(data)
      visibility := extractVisibility(data)
      windSpeed, windDirection := extractWindInfo(data)
      cloudCoverage := extractCloudCoverage(data)
      sunrise, sunset := extractSunriseSunset(data)
      weatherType := classifyWeather(temperature)
      return &WeatherData{ ... }, nil
  }
  \<close>
  The pair returned is \<open>(*WeatherData, error)\<close>, \<open>None\<close> standing for nil.
\<close>

definition build_summary :: "(float64 \<Rightarrow> int) \<Rightarrow> jmap \<Rightarrow> panic + WeatherData" where
  "build_summary oor data =
     and_then (extractWeatherInfo data) (\<lambda>(weatherDescription, temperature).
     and_then (extractVisibility oor data) (\<lambda>visibility.
     and_then (extractWindInfo oor data) (\<lambda>(windSpeed, windDirection).
     and_then (extractCloudCoverage oor data) (\<lambda>cloudCoverage.
     and_then (extractSunriseSunset oor data) (\<lambda>(sunrise, sunset).
       let weatherType = classifyWeather temperature
       in Inr \<lparr> WeatherDescription = weatherDescription,
                 Temperature = fmt_v_float temperature @ '' Celsius'',
                 WeatherType = weatherType,
                 Visibility = visibility,
                 WindSpeed = windSpeed,
                 WindDirection = windDirection,
                 CloudCoverage = cloudCoverage,
                 Sunrise = sunrise,
                 Sunset = sunset \<rparr>)))))"

definition getWeather ::
  "(float64 \<Rightarrow> int) \<Rightarrow> (string \<Rightarrow> upstream) \<Rightarrow> float64 \<Rightarrow> float64 \<Rightarrow>
   (WeatherData option \<times> go_error option) go_result" where
  "getWeather oor http lat lon =
     (let url = weather_url lat lon
      in case http url of
           GetFailed err \<Rightarrow> Returns (None, Some err)
         | DecodeFailed err \<Rightarrow> Returns (None, Some err)
         | Decoded data \<Rightarrow>
             (case build_summary oor data of
                Inl p \<Rightarrow> Panics p
              | Inr weatherData \<Rightarrow> Returns (Some weatherData, None)))"

section \<open>The handler\<close>

text \<open>
  What a call comes to when it starts a goroutine: the results it hands to its caller,
  if it gets to return, and whether the program is terminated. A panic that no deferred
  function recovers terminates the whole program, whichever goroutine raised it; net/http
  recovers panics of the goroutine serving a request, not those of a goroutine the handler
  started.
\<close>

record 'a outcome =
  result :: "'a option"
  process_exits :: bool

text \<open>
  \<^verbatim>\<open>
  func getWeatherWithContext(ctx context.Context, lat, lon float64) (*WeatherData, error) {
      ch := make(chan *WeatherData, 1)
      errCh := make(chan error, 1)
      go func() {
          weatherData, err := getWeather(lat, lon)
          if err != nil {
              errCh <- err
              return
          }
          ch <- weatherData
      }()
      select {
      case <-ctx.Done():
          return nil, ctx.Err()
      case err := <-errCh:
          return nil, err
      case weatherData := <-ch:
          return weatherData, nil
      }
  }
  \<close>
  The model has no clock. Whether the context's deadline passes before the goroutine is
  done with \<open>getWeather\<close> is its input \<open>deadline_first\<close>; the upstream call is one that
  ends. When the deadline is first the caller gets the context's error, and the goroutine
  goes on to its end by itself.
\<close>

definition getWeatherWithContext ::
  "(float64 \<Rightarrow> int) \<Rightarrow> (string \<Rightarrow> upstream) \<Rightarrow> bool \<Rightarrow> float64 \<Rightarrow> float64 \<Rightarrow>
   (WeatherData option \<times> go_error option) outcome" where
  "getWeatherWithContext oor http deadline_first lat lon =
     (case getWeather oor http lat lon of
        Panics p \<Rightarrow>
          \<lparr> result = (if deadline_first then Some (None, Some ContextDeadlineExceeded) else None),
            process_exits = True \<rparr>
      | Returns (weatherData, err) \<Rightarrow>
          \<lparr> result =
              (if deadline_first then Some (None, Some ContextDeadlineExceeded)
               else case err of
                      Some e \<Rightarrow> Some (None, Some e)
                    | None \<Rightarrow> Some (weatherData, None)),
            process_exits = False \<rparr>)"

text \<open>
  The reply: \<open>http.Error(w, msg, code)\<close> writes the status and the message followed by
  a newline. \<open>json.NewEncoder(w).Encode(weatherData)\<close> writes the summary as JSON under
  the status 200; marshalling a \<open>time.Time\<close> fails when its year, in the local zone that
  \<open>time.Unix\<close> gives it, is outside 0 to 9999, and then Encode writes nothing: the
  handler drops its error and the reply is 200 with an empty body. The offset of the
  local zone from UTC at an instant, in seconds, is the parameter \<open>utc_offset\<close>.
\<close>

datatype body = Text string | Json "WeatherData option" | NoBody

record response =
  status :: nat
  body :: body

definition http_Error :: "string \<Rightarrow> nat \<Rightarrow> response" where
  "http_Error msg code = \<lparr> status = code, body = Text (msg @ [CHR 0x0A]) \<rparr>"

definition year_in_range :: "(int \<Rightarrow> int) \<Rightarrow> time \<Rightarrow> bool" where
  "year_in_range utc_offset t =
     (let local = unix_sec t + utc_offset (unix_sec t)
      in - 62167219200 \<le> local \<and> local < 253402300800)"

definition encode_body :: "(int \<Rightarrow> int) \<Rightarrow> WeatherData option \<Rightarrow> body" where
  "encode_body utc_offset weatherData =
     (case weatherData of
        None \<Rightarrow> Json None
      | Some w \<Rightarrow>
          if year_in_range utc_offset (Sunrise w) \<and> year_in_range utc_offset (Sunset w)
          then Json (Some w) else NoBody)"

text \<open>\<open>r.URL.Query().Get(key)\<close>: the first value of the key, the empty string without one.\<close>

definition query_Get :: "(string \<Rightarrow> string list option) \<Rightarrow> string \<Rightarrow> string" where
  "query_Get values k = (case values k of None \<Rightarrow> [] | Some [] \<Rightarrow> [] | Some (v # vs) \<Rightarrow> v)"

subsection \<open>strconv.ParseFloat\<close>

text \<open>
  \<open>strconv.ParseFloat(s, 64)\<close> reads the whole of \<open>s\<close>: the texts "inf" and "infinity",
  with an optional sign, and "nan", in any letter case; or an optional sign, decimal
  digits with at most one point, and an optional exponent \<open>e\<close>; or, after \<open>0x\<close>,
  hexadecimal digits with at most one point and a mandatory binary exponent \<open>p\<close>.
  Underscores may separate digits. The result is the float64 nearest to the number
  written; a number that rounds to an infinity is a range error, any other text a syntax
  error.
\<close>

definition ErrSyntax :: go_error where
  "ErrSyntax = Err ''invalid syntax''"

definition ErrRange :: go_error where
  "ErrRange = Err ''value out of range''"

definition ascii_lower :: "char \<Rightarrow> char" where
  "ascii_lower c =
     (case map_of (zip ''ABCDEFGHIJKLMNOPQRSTUVWXYZ'' ''abcdefghijklmnopqrstuvwxyz'') c of
        Some l \<Rightarrow> l
      | None \<Rightarrow> c)"

fun commonPrefixLenIgnoreCase :: "string \<Rightarrow> string \<Rightarrow> nat" where
  "commonPrefixLenIgnoreCase (c # s) (p # prefix) =
     (if ascii_lower c = p then Suc (commonPrefixLenIgnoreCase s prefix) else 0)"
| "commonPrefixLenIgnoreCase s prefix = 0"

definition inf_prefix :: "string \<Rightarrow> nat option" where
  "inf_prefix s =
     (let n = commonPrefixLenIgnoreCase s ''infinity'';
          n' = (if 3 < n \<and> n < 8 then 3 else n)
      in if n' = 3 \<or> n' = 8 then Some n' else None)"

fun special :: "string \<Rightarrow> (float64 \<times> nat) option" where
  "special [] = None"
| "special (c # s) =
     (if c = CHR ''+'' \<or> c = CHR ''-'' then
        (case inf_prefix s of
           Some n \<Rightarrow> Some (if c = CHR ''-'' then NegInf else PosInf, 1 + n)
         | None \<Rightarrow> None)
      else if c = CHR ''i'' \<or> c = CHR ''I'' then
        (case inf_prefix (c # s) of Some n \<Rightarrow> Some (PosInf, n) | None \<Rightarrow> None)
      else if c = CHR ''n'' \<or> c = CHR ''N'' then
        (if commonPrefixLenIgnoreCase (c # s) ''nan'' = 3 then Some (NaN, 3) else None)
      else None)"

definition is_hex_letter :: "char \<Rightarrow> bool" where
  "is_hex_letter c = (c \<in> set ''abcdefABCDEF'')"

definition digit_value :: "char \<Rightarrow> nat" where
  "digit_value c =
     (case map_of (zip ''0123456789abcdefABCDEF''
                       [0, 1, 2, 3, 4, 5, 6, 7, 8, 9, 10, 11, 12, 13, 14, 15, 10, 11, 12, 13, 14, 15]) c of
        Some v \<Rightarrow> v
      | None \<Rightarrow> 0)"

text \<open>
  The mantissa as read so far: the integer its digits write, how many of them stand
  after the point, and what \<open>readFloat\<close> has seen.
\<close>

record mantissa =
  digits_value :: nat
  frac_digits :: nat
  sawdot :: bool
  sawdigits :: bool
  underscores :: bool

fun read_mantissa :: "bool \<Rightarrow> string \<Rightarrow> mantissa \<Rightarrow> mantissa \<times> string" where
  "read_mantissa hex [] st = (st, [])"
| "read_mantissa hex (c # cs) st =
     (if c = CHR ''_'' then read_mantissa hex cs (st\<lparr>underscores := True\<rparr>)
      else if c = CHR ''.'' then
        (if sawdot st then (st, c # cs) else read_mantissa hex cs (st\<lparr>sawdot := True\<rparr>))
      else if is_digit c \<or> (hex \<and> is_hex_letter c) then
        read_mantissa hex cs
          (st\<lparr>digits_value := digits_value st * (if hex then 16 else 10) + digit_value c,
              frac_digits := frac_digits st + (if sawdot st then 1 else 0),
              sawdigits := True\<rparr>)
      else (st, c # cs))"

fun read_exponent :: "string \<Rightarrow> nat \<Rightarrow> bool \<Rightarrow> nat \<times> bool \<times> string" where
  "read_exponent [] e u = (e, u, [])"
| "read_exponent (c # cs) e u =
     (if c = CHR ''_'' then read_exponent cs e True
      else if is_digit c then
        read_exponent cs (if e < 10000 then e * 10 + digit_value c else e) u
      else (e, u, c # cs))"

fun underscore_scan :: "bool \<Rightarrow> char \<Rightarrow> string \<Rightarrow> bool" where
  "underscore_scan hex saw [] = (saw \<noteq> CHR ''_'')"
| "underscore_scan hex saw (c # cs) =
     (if is_digit c \<or> (hex \<and> is_hex_letter c) then underscore_scan hex (CHR ''0'') cs
      else if c = CHR ''_'' then
        (if saw \<noteq> CHR ''0'' then False else underscore_scan hex (CHR ''_'') cs)
      else if saw = CHR ''_'' then False
      else underscore_scan hex (CHR ''!'') cs)"

definition strip_sign :: "string \<Rightarrow> string" where
  "strip_sign s =
     (case s of [] \<Rightarrow> [] | c # cs \<Rightarrow> if c = CHR ''-'' \<or> c = CHR ''+'' then cs else s)"

definition underscoreOK :: "string \<Rightarrow> bool" where
  "underscoreOK s =
     (case strip_sign s of
        z # p # rest \<Rightarrow>
          if z = CHR ''0'' \<and> p \<in> set ''bBoOxX''
          then underscore_scan (p \<in> set ''xX'') (CHR ''0'') rest
          else underscore_scan False (CHR ''^'') (z # p # rest)
      | s1 \<Rightarrow> underscore_scan False (CHR ''^'') s1)"

text \<open>
  \<open>readFloat\<close>: the sign, the magnitude written and the rest of the text that was not
  read, or nothing where the text does not start with a number.
\<close>

definition finish_float ::
  "string \<Rightarrow> bool \<Rightarrow> bool \<Rightarrow> mantissa \<Rightarrow> int \<Rightarrow> bool \<Rightarrow> string \<Rightarrow> (bool \<times> rat \<times> string) option" where
  "finish_float s neg hex m e u rest =
     (if (underscores m \<or> u) \<and> \<not> underscoreOK (take (length s - length rest) s) then None
      else Some (neg,
                 of_nat (digits_value m) *
                   (if hex then pow_int 2 (e - 4 * int (frac_digits m))
                    else pow_int 10 (e - int (frac_digits m))),
                 rest))"

definition readFloat :: "string \<Rightarrow> (bool \<times> rat \<times> string) option" where
  "readFloat s =
     (let neg = (case s of [] \<Rightarrow> False | c # cs \<Rightarrow> c = CHR ''-'');
          s1 = strip_sign s;
          hex = (case s1 of z # x # y # rest \<Rightarrow> z = CHR ''0'' \<and> x \<in> set ''xX'' | _ \<Rightarrow> False);
          (m, s3) = read_mantissa hex (if hex then drop 2 s1 else s1)
                      \<lparr>digits_value = 0, frac_digits = 0, sawdot = False, sawdigits = False,
                        underscores = False\<rparr>
      in if \<not> sawdigits m then None
         else (case s3 of
                 [] \<Rightarrow> if hex then None else finish_float s neg hex m 0 False s3
               | c # s4 \<Rightarrow>
                   if c \<in> set (if hex then ''pP'' else ''eE'') then
                     (let esign = (case s4 of [] \<Rightarrow> 1 | d # r \<Rightarrow> if d = CHR ''-'' then - 1 else 1);
                          s5 = strip_sign s4
                      in case s5 of
                           [] \<Rightarrow> None
                         | d # r \<Rightarrow>
                             if \<not> is_digit d then None
                             else (let (e, u, s6) = read_exponent s5 0 False
                                   in finish_float s neg hex m (esign * int e) u s6))
                   else if hex then None
                   else finish_float s neg hex m 0 False s3))"

definition ParseFloat :: "string \<Rightarrow> go_error + float64" where
  "ParseFloat s =
     (case special s of
        Some (v, n) \<Rightarrow> if n = length s then Inr v else Inl ErrSyntax
      | None \<Rightarrow>
          (case readFloat s of
             None \<Rightarrow> Inl ErrSyntax
           | Some (neg, q, rest) \<Rightarrow>
               if rest \<noteq> [] then Inl ErrSyntax
               else if q = 0 then Inr (if neg then NegZero else Finite 0)
               else (case nearest_float64 (if neg then - q else q) of
                       PosInf \<Rightarrow> Inl ErrRange
                     | NegInf \<Rightarrow> Inl ErrRange
                     | v \<Rightarrow> Inr v)))"

text \<open>
  \<^verbatim>\<open>
  func WeatherHandler(w http.ResponseWriter, r *http.Request) {
      lat, err := strconv.ParseFloat(r.URL.Query().Get("lat"), 64)
      if err != nil {
          http.Error(w, "Invalid latitude", http.StatusBadRequest)
          return
      }
      lon, err := strconv.ParseFloat(r.URL.Query().Get("lon"), 64)
      if err != nil {
          http.Error(w, "Invalid longitude", http.StatusBadRequest)
          return
      }
      ctx, cancel := context.WithTimeout(context.Background(), 5*time.Second)
      defer cancel()
      weatherData, err := getWeatherWithContext(ctx, lat, lon)
      if err != nil {
          http.Error(w, "Failed to fetch weather data", http.StatusInternalServerError)
          return
      }
      json.NewEncoder(w).Encode(weatherData)
  }
  \<close>
\<close>

definition WeatherHandler ::
  "(float64 \<Rightarrow> int) \<Rightarrow> (int \<Rightarrow> int) \<Rightarrow> (string \<Rightarrow> upstream) \<Rightarrow> bool \<Rightarrow>
   (string \<Rightarrow> string list option) \<Rightarrow> response outcome" where
  "WeatherHandler oor utc_offset http deadline_first query =
     (case ParseFloat (query_Get query ''lat'') of
        Inl err \<Rightarrow> \<lparr> result = Some (http_Error ''Invalid latitude'' 400), process_exits = False \<rparr>
      | Inr lat \<Rightarrow>
          (case ParseFloat (query_Get query ''lon'') of
             Inl err \<Rightarrow>
               \<lparr> result = Some (http_Error ''Invalid longitude'' 400), process_exits = False \<rparr>
           | Inr lon \<Rightarrow>
               (let called = getWeatherWithContext oor http deadline_first lat lon
                in case result called of
                     None \<Rightarrow> \<lparr> result = None, process_exits = process_exits called \<rparr>
                   | Some (weatherData, Some err) \<Rightarrow>
                       \<lparr> result = Some (http_Error ''Failed to fetch weather data'' 500),
                         process_exits = process_exits called \<rparr>
                   | Some (weatherData, None) \<Rightarrow>
                       \<lparr> result = Some \<lparr> status = 200, body = encode_body utc_offset weatherData \<rparr>,
                         process_exits = process_exits called \<rparr>)))"

section \<open>Documents and requests used below\<close>

text \<open>
  The well-formed reply: description "clear sky", temp 15.3, visibility 8000, wind speed
  3.1 and direction 180, clouds 40, sunrise 1700000000 and sunset 1700040000.
\<close>

definition fixture_document :: jmap where
  "fixture_document =
     [''weather'' \<mapsto> JArray [JObject [''description'' \<mapsto> JString ''clear sky'']],
      ''main'' \<mapsto> JObject [''temp'' \<mapsto> JNumber (nearest_float64 (153 / 10))],
      ''visibility'' \<mapsto> JNumber (Finite 8000),
      ''wind'' \<mapsto> JObject [''speed'' \<mapsto> JNumber (nearest_float64 (31 / 10)),
                          ''deg'' \<mapsto> JNumber (Finite 180)],
      ''clouds'' \<mapsto> JObject [''all'' \<mapsto> JNumber (Finite 40)],
      ''sys'' \<mapsto> JObject [''sunrise'' \<mapsto> JNumber (Finite 1700000000),
                         ''sunset'' \<mapsto> JNumber (Finite 1700040000)]]"

text \<open>The same reply without its \<open>wind\<close> key.\<close>

definition no_wind_document :: jmap where
  "no_wind_document =
     [''weather'' \<mapsto> JArray [JObject [''description'' \<mapsto> JString ''clear sky'']],
      ''main'' \<mapsto> JObject [''temp'' \<mapsto> JNumber (nearest_float64 (153 / 10))],
      ''visibility'' \<mapsto> JNumber (Finite 8000),
      ''clouds'' \<mapsto> JObject [''all'' \<mapsto> JNumber (Finite 40)],
      ''sys'' \<mapsto> JObject [''sunrise'' \<mapsto> JNumber (Finite 1700000000),
                         ''sunset'' \<mapsto> JNumber (Finite 1700040000)]]"

text \<open>An upstream that answers every URL with the same decoded document.\<close>

definition replies_with :: "jmap \<Rightarrow> string \<Rightarrow> upstream" where
  "replies_with data url = Decoded data"

text \<open>An upstream that knows one URL only.\<close>

definition only_at :: "string \<Rightarrow> upstream \<Rightarrow> string \<Rightarrow> upstream" where
  "only_at known reply url = (if url = known then reply else GetFailed (Err ''no such host''))"





definition query_1_2 :: "string \<Rightarrow> string list option" where
  "query_1_2 = [''lat'' \<mapsto> [''1''], ''lon'' \<mapsto> [''2'']]"



text \<open>
  A summary is populated from a document when the document holds a value of the
  expected type at each of the eight places the program reads (\<open>weather[0].description\<close>,
  \<open>main.temp\<close>, \<open>visibility\<close>, \<open>wind.speed\<close>, \<open>wind.deg\<close>, \<open>clouds.all\<close>,
  \<open>sys.sunrise\<close>, \<open>sys.sunset\<close>) and each of the nine fields of the summary holds the
  text or the instant made of the value at its place.
\<close>

definition populated_from :: "(float64 \<Rightarrow> int) \<Rightarrow> jmap \<Rightarrow> WeatherData \<Rightarrow> bool" where
  "populated_from oor data w =
     (case (map_index data ''weather'', map_index data ''main'', map_index data ''visibility'',
            map_index data ''wind'', map_index data ''clouds'', map_index data ''sys'') of
        (JArray (JObject first # others), JObject mainData, JNumber v, JObject windData,
         JObject cloudData, JObject sysData) \<Rightarrow>
          (case (map_index first ''description'', map_index mainData ''temp'',
                 map_index windData ''speed'', map_index windData ''deg'',
                 map_index cloudData ''all'', map_index sysData ''sunrise'',
                 map_index sysData ''sunset'') of
             (JString description, JNumber t, JNumber s, JNumber d, JNumber c, JNumber sr,
              JNumber ss) \<Rightarrow>
               w = \<lparr> WeatherDescription = description,
                     Temperature = fmt_v_float t @ '' Celsius'',
                     WeatherType = classifyWeather t,
                     Visibility = fmt_int (float64_to_int oor v sdiv 1000) @ '' KM'',
                     WindSpeed = fmt_v_float s @ '' meter/sec'',
                     WindDirection = fmt_int (float64_to_int oor d) @ '' degrees'',
                     CloudCoverage = fmt_int (float64_to_int oor c) @ '' percentage'',
                     Sunrise = time_Unix (float64_to_int oor sr) 0,
                     Sunset = time_Unix (float64_to_int oor ss) 0 \<rparr>
           | _ \<Rightarrow> False)
      | _ \<Rightarrow> False)"

text \<open>A reading with the wind from 180.5 degrees, 8999 metres of visibility and 40.75 percent of clouds.\<close>

definition fractional_document :: jmap where
  "fractional_document =
     [''visibility'' \<mapsto> JNumber (Finite 8999),
      ''wind'' \<mapsto> JObject [''speed'' \<mapsto> JNumber (Finite 3),
                          ''deg'' \<mapsto> JNumber (Finite (361 / 2))],
      ''clouds'' \<mapsto> JObject [''all'' \<mapsto> JNumber (Finite (163 / 4))]]"

section \<open>Properties\<close>

subsection \<open>Arithmetic used by the evaluations\<close>

lemma floor_rat_numeral_div [simp]:
  "\<lfloor>(numeral a :: rat) / numeral b\<rfloor> = numeral a div numeral b"
  using floor_divide_of_int_eq [of "numeral a" "numeral b", where ?'a = rat] by simp

lemma floor_rat_one_div [simp]:
  "\<lfloor>(1 :: rat) / numeral b\<rfloor> = 1 div numeral b"
  using floor_divide_of_int_eq [of 1 "numeral b", where ?'a = rat] by simp

lemma floor_rat_div:
  fixes q :: rat
  assumes n: "0 < n"
  shows "\<lfloor>q / of_int n\<rfloor> = \<lfloor>q\<rfloor> div n"
proof (rule floor_unique)
  let ?a = "\<lfloor>q\<rfloor>"
  have npos: "(0::rat) < of_int n" using n by simp
  have "0 \<le> ?a mod n" using n by simp
  then have "n * (?a div n) \<le> ?a"
    using mult_div_mod_eq [of n ?a] by linarith
  then have "(of_int (n * (?a div n)) :: rat) \<le> of_int ?a"
    by (simp only: of_int_le_iff)
  also have "\<dots> \<le> q" by simp
  finally have "of_int n * of_int (?a div n) \<le> q" by simp
  then show "of_int (?a div n) \<le> q / of_int n"
    using npos by (simp add: pos_le_divide_eq mult.commute)
  have "?a mod n < n" using n by simp
  then have "?a + 1 \<le> n * (?a div n) + n"
    using mult_div_mod_eq [of n ?a] by linarith
  then have "(of_int (?a + 1) :: rat) \<le> of_int (n * (?a div n) + n)"
    by (simp only: of_int_le_iff)
  moreover have "q < of_int (?a + 1)" using floor_correct [of q] by simp
  ultimately have "q < of_int (n * (?a div n) + n)" by linarith
  then have "q < (of_int (?a div n) + 1) * of_int n"
    by (simp add: algebra_simps)
  then show "q / of_int n < of_int (?a div n) + 1"
    using npos by (simp add: pos_divide_less_eq)
qed

lemma sdiv_nonneg:
  fixes a n :: int
  shows "0 \<le> a \<Longrightarrow> 0 < n \<Longrightarrow> a sdiv n = a div n"
  by (cases "a = 0") (simp_all add: signed_divide_int_def sgn_if)

lemma sdiv_minus_nonneg:
  fixes a n :: int
  shows "0 \<le> a \<Longrightarrow> 0 < n \<Longrightarrow> (- a) sdiv n = - (a div n)"
  by (cases "a = 0") (simp_all add: signed_divide_int_def sgn_if)

lemma trunc_rat_sdiv:
  assumes n: "0 < n"
  shows "trunc_rat q sdiv n = trunc_rat (q / of_int n)"
proof (cases "0 \<le> q")
  case True
  then have fl: "0 \<le> \<lfloor>q\<rfloor>" by simp
  have "\<lfloor>q\<rfloor> sdiv n = \<lfloor>q\<rfloor> div n"
    using fl n by (rule sdiv_nonneg)
  moreover have "\<lfloor>q / of_int n\<rfloor> = \<lfloor>q\<rfloor> div n"
    using n by (rule floor_rat_div)
  moreover have "0 \<le> q / of_int n" using True n by simp
  ultimately show ?thesis
    using True by (simp add: trunc_rat_def)
next
  case False
  then have neg: "q < 0" by simp
  then have qn: "q / of_int n < 0" using n by (simp add: divide_neg_pos)
  have fl: "0 \<le> \<lfloor>- q\<rfloor>" using neg by simp
  have "- \<lfloor>- q\<rfloor> sdiv n = - (\<lfloor>- q\<rfloor> div n)"
    using fl n by (rule sdiv_minus_nonneg)
  moreover have "\<lfloor>- q / of_int n\<rfloor> = \<lfloor>- q\<rfloor> div n"
    using n by (rule floor_rat_div)
  ultimately show ?thesis
    using neg qn by (simp add: trunc_rat_def)
qed

lemmas eval_int = in_int64_def trunc_rat_def fmt_int_def fmt_nat.simps digit_char_def

subsection \<open>Classification\<close>

lemma f64_lt_not_le: "f64_lt x y \<Longrightarrow> \<not> f64_le y x"
  by (cases x; cases y) simp_all

text \<open>
  C2. For every float64 temperature \<open>t\<close>, classifyWeather returns "cold" if \<open>t \<le> 10\<close>,
  "moderate" if \<open>10 < t \<le> 25\<close> and "hot" if \<open>t > 25\<close>, the comparisons being Go's on
  float64; 10 itself is "cold" and 25 itself is "moderate".
\<close>

theorem classifyWeather_ranges:
  "(f64_le t (Finite 10) \<longrightarrow> classifyWeather t = ''cold'') \<and>
   (f64_lt (Finite 10) t \<and> f64_le t (Finite 25) \<longrightarrow> classifyWeather t = ''moderate'') \<and>
   (f64_lt (Finite 25) t \<longrightarrow> classifyWeather t = ''hot'') \<and>
   classifyWeather (Finite 10) = ''cold'' \<and>
   classifyWeather (Finite 25) = ''moderate''"
proof -
  have cold: "f64_le t (Finite 10) \<longrightarrow> classifyWeather t = ''cold''"
    by (simp add: classifyWeather_def)
  have moderate:
    "f64_lt (Finite 10) t \<and> f64_le t (Finite 25) \<longrightarrow> classifyWeather t = ''moderate''"
    using f64_lt_not_le [of "Finite 10" t] by (auto simp: classifyWeather_def)
  have le_trans: "f64_le t (Finite 10) \<Longrightarrow> f64_le t (Finite 25)"
    by (cases t) simp_all
  have hot: "f64_lt (Finite 25) t \<longrightarrow> classifyWeather t = ''hot''"
    using f64_lt_not_le [of "Finite 25" t] le_trans by (auto simp: classifyWeather_def)
  have b10: "classifyWeather (Finite 10) = ''cold''"
    by (simp add: classifyWeather_def)
  have b25: "classifyWeather (Finite 25) = ''moderate''"
    by (simp add: classifyWeather_def)
  from cold moderate hot b10 b25 show ?thesis by blast
qed

theorem classifyWeather_ranges_witness:
  "f64_le (Finite 5) (Finite 10) \<and> classifyWeather (Finite 5) = ''cold'' \<and>
   f64_lt (Finite 10) (Finite 20) \<and> f64_le (Finite 20) (Finite 25) \<and>
   classifyWeather (Finite 20) = ''moderate'' \<and>
   f64_lt (Finite 25) (Finite (51 / 2)) \<and> classifyWeather (Finite (51 / 2)) = ''hot''"
  using classifyWeather_ranges [of "Finite 5"] classifyWeather_ranges [of "Finite 20"]
    classifyWeather_ranges [of "Finite (51 / 2)"]
  by simp

text \<open>
  C10. classifyWeather returns for every float64, the strings it returns are exactly
  "cold", "moderate" and "hot", and a NaN, for which both comparisons are false, is "hot".
\<close>

theorem classifyWeather_total:
  "range classifyWeather = {''cold'', ''moderate'', ''hot''} \<and>
   \<not> f64_le NaN (Finite 10) \<and> \<not> f64_le NaN (Finite 25) \<and>
   classifyWeather NaN = ''hot''"
proof -
  have sub: "range classifyWeather \<subseteq> {''cold'', ''moderate'', ''hot''}"
    by (auto simp: classifyWeather_def)
  have c: "''cold'' \<in> range classifyWeather"
    by (rule range_eqI [of _ _ "Finite 0"]) (simp add: classifyWeather_def)
  have m: "''moderate'' \<in> range classifyWeather"
    by (rule range_eqI [of _ _ "Finite 20"]) (simp add: classifyWeather_def)
  have h: "''hot'' \<in> range classifyWeather"
    by (rule range_eqI [of _ _ "Finite 30"]) (simp add: classifyWeather_def)
  have nan: "classifyWeather NaN = ''hot''"
    by (simp add: classifyWeather_def)
  from sub c m h nan show ?thesis by auto
qed

subsection \<open>Visibility\<close>

text \<open>
  C4. extractVisibility divides the metres by 1000 and drops the fraction, towards zero
  and without rounding: for a value \<open>q\<close> whose integer part fits an int, the text is the
  integer part of \<open>q / 1000\<close> followed by " KM". For 0, 999, 1000, 1999 and 10000 metres
  it is "0 KM", "0 KM", "1 KM", "1 KM" and "10 KM"; for -1999 it is "-1 KM".
\<close>

theorem extractVisibility_truncates:
  "(data ''visibility'' = Some (JNumber (Finite q)) \<and> in_int64 (trunc_rat q) \<longrightarrow>
      extractVisibility oor data = Inr (fmt_int (trunc_rat (q / 1000)) @ '' KM'')) \<and>
   extractVisibility oor [''visibility'' \<mapsto> JNumber (Finite 0)] = Inr ''0 KM'' \<and>
   extractVisibility oor [''visibility'' \<mapsto> JNumber (Finite 999)] = Inr ''0 KM'' \<and>
   extractVisibility oor [''visibility'' \<mapsto> JNumber (Finite 1000)] = Inr ''1 KM'' \<and>
   extractVisibility oor [''visibility'' \<mapsto> JNumber (Finite 1999)] = Inr ''1 KM'' \<and>
   extractVisibility oor [''visibility'' \<mapsto> JNumber (Finite 10000)] = Inr ''10 KM'' \<and>
   extractVisibility oor [''visibility'' \<mapsto> JNumber (Finite (- 1999))] = Inr ''-1 KM''"
proof -
  have general:
    "data ''visibility'' = Some (JNumber (Finite q)) \<and> in_int64 (trunc_rat q) \<longrightarrow>
       extractVisibility oor data = Inr (fmt_int (trunc_rat (q / 1000)) @ '' KM'')"
    using trunc_rat_sdiv [of 1000 q]
    by (simp add: extractVisibility_def map_index_def)
  have v0: "extractVisibility oor [''visibility'' \<mapsto> JNumber (Finite 0)] = Inr ''0 KM''"
    by (simp add: extractVisibility_def map_index_def eval_int)
  have v999: "extractVisibility oor [''visibility'' \<mapsto> JNumber (Finite 999)] = Inr ''0 KM''"
    by (simp add: extractVisibility_def map_index_def eval_int)
  have v1000: "extractVisibility oor [''visibility'' \<mapsto> JNumber (Finite 1000)] = Inr ''1 KM''"
    by (simp add: extractVisibility_def map_index_def eval_int)
  have v1999: "extractVisibility oor [''visibility'' \<mapsto> JNumber (Finite 1999)] = Inr ''1 KM''"
    by (simp add: extractVisibility_def map_index_def eval_int)
  have v10000:
    "extractVisibility oor [''visibility'' \<mapsto> JNumber (Finite 10000)] = Inr ''10 KM''"
    by (simp add: extractVisibility_def map_index_def eval_int)
  have vneg:
    "extractVisibility oor [''visibility'' \<mapsto> JNumber (Finite (- 1999))] = Inr ''-1 KM''"
    by (simp add: extractVisibility_def map_index_def eval_int)
  from general v0 v999 v1000 v1999 v10000 vneg show ?thesis by blast
qed

theorem extractVisibility_truncates_witness:
  "[''visibility'' \<mapsto> JNumber (Finite (3999 / 2))] ''visibility'' =
     Some (JNumber (Finite (3999 / 2))) \<and>
   in_int64 (trunc_rat (3999 / 2)) \<and>
   extractVisibility oor_amd64 [''visibility'' \<mapsto> JNumber (Finite (3999 / 2))] = Inr ''1 KM''"
  using extractVisibility_truncates
    [of "[''visibility'' \<mapsto> JNumber (Finite (3999 / 2))]" "3999 / 2" oor_amd64]
  by (simp add: eval_int)

subsection \<open>The well-formed reply\<close>

lemmas eval_f64 = f64_interval_def f64_ulp_def f64_exponent_def pow_int_def Let_def in_interval_def

lemma temp_log2: "floor_log 2 (153 / 10) = 3"
  by (simp add: floor_log_def count_digits.simps)

lemma temp_round: "round_half_even (153 / 10 * 2 ^ 49) = 8613134287346074"
  by (simp add: round_half_even_def Let_def)

lemma temp_float: "nearest_float64 (153 / 10) = Finite (4306567143673037 / 281474976710656)"
  using temp_round by (simp add: nearest_float64_def eval_f64 temp_log2)

lemma temp_float_log2: "floor_log 2 (4306567143673037 / 281474976710656) = 3"
  by (simp add: floor_log_def count_digits.simps)

lemma temp_float_log10: "floor_log 10 (4306567143673037 / 281474976710656) = 1"
  by (simp add: floor_log_def count_digits.simps)

lemma temp_shortest: "shortest_decimal (4306567143673037 / 281474976710656) 1 1 = (153, - 1)"
  apply (subst shortest_decimal.simps)
  apply (simp add: eval_f64 temp_float_log2)
  apply (subst shortest_decimal.simps)
  apply (simp add: eval_f64 temp_float_log2)
  apply (subst shortest_decimal.simps)
  apply (simp add: eval_f64 temp_float_log2)
  done

lemma temp_digits: "shortest_digits (4306567143673037 / 281474976710656) = (153, - 1)"
  by (simp only: shortest_digits_def temp_float_log10 temp_shortest)

lemma temp_text: "fmt_v_float (nearest_float64 (153 / 10)) = ''15.3''"
  by (simp add: temp_float temp_digits fmt_nat.simps digit_char_def
      strip_trailing_zeros_def fmt_g_shortest_def)

lemma speed_log2: "floor_log 2 (31 / 10) = 1"
  by (simp add: floor_log_def count_digits.simps)

lemma speed_round: "round_half_even (31 / 10 * 2 ^ 51) = 6980579422424269"
  by (simp add: round_half_even_def Let_def)

lemma speed_float: "nearest_float64 (31 / 10) = Finite (6980579422424269 / 2251799813685248)"
  using speed_round by (simp add: nearest_float64_def eval_f64 speed_log2)

lemma speed_float_log2: "floor_log 2 (6980579422424269 / 2251799813685248) = 1"
  by (simp add: floor_log_def count_digits.simps)

lemma speed_float_log10: "floor_log 10 (6980579422424269 / 2251799813685248) = 0"
  by (simp add: floor_log_def count_digits.simps)

lemma speed_shortest: "shortest_decimal (6980579422424269 / 2251799813685248) 0 1 = (31, - 1)"
  apply (subst shortest_decimal.simps)
  apply (simp add: eval_f64 speed_float_log2)
  apply (subst shortest_decimal.simps)
  apply (simp add: eval_f64 speed_float_log2)
  done

lemma speed_digits: "shortest_digits (6980579422424269 / 2251799813685248) = (31, - 1)"
  by (simp only: shortest_digits_def speed_float_log10 speed_shortest)

lemma speed_text: "fmt_v_float (nearest_float64 (31 / 10)) = ''3.1''"
  by (simp add: speed_float speed_digits fmt_nat.simps digit_char_def
      strip_trailing_zeros_def fmt_g_shortest_def)

lemma fixture_info: "extractWeatherInfo fixture_document = Inr (''clear sky'', nearest_float64 (153 / 10))"
  by (simp add: extractWeatherInfo_def fixture_document_def map_index_def)

lemma fixture_visibility: "extractVisibility oor fixture_document = Inr ''8 KM''"
  by (simp add: extractVisibility_def fixture_document_def map_index_def eval_int)

lemma fixture_wind:
  "extractWindInfo oor fixture_document = Inr (''3.1 meter/sec'', ''180 degrees'')"
  by (simp add: extractWindInfo_def fixture_document_def map_index_def eval_int speed_text)

lemma fixture_clouds: "extractCloudCoverage oor fixture_document = Inr ''40 percentage''"
  by (simp add: extractCloudCoverage_def fixture_document_def map_index_def eval_int)

lemma fixture_sun:
  "extractSunriseSunset oor fixture_document =
     Inr (time_Unix 1700000000 0, time_Unix 1700040000 0)"
  by (simp add: extractSunriseSunset_def fixture_document_def map_index_def in_int64_def
      trunc_rat_def)

lemma fixture_type: "classifyWeather (nearest_float64 (153 / 10)) = ''moderate''"
  by (simp add: classifyWeather_def temp_float)

lemma fixture_summary:
  "build_summary oor fixture_document =
     Inr \<lparr> WeatherDescription = ''clear sky'',
           Temperature = ''15.3 Celsius'',
           WeatherType = ''moderate'',
           Visibility = ''8 KM'',
           WindSpeed = ''3.1 meter/sec'',
           WindDirection = ''180 degrees'',
           CloudCoverage = ''40 percentage'',
           Sunrise = time_Unix 1700000000 0,
           Sunset = time_Unix 1700040000 0 \<rparr>"
  by (simp add: build_summary_def fixture_info fixture_visibility fixture_wind fixture_clouds
      fixture_sun fixture_type temp_text)

text \<open>
  C5. When the upstream answers the request with the well-formed reply (description
  "clear sky", temp 15.3, visibility 8000, wind speed 3.1 and direction 180, clouds 40,
  sunrise 1700000000, sunset 1700040000), getWeather returns, with a nil error, the
  summary with weather_type "moderate", temperature "15.3 Celsius", visibility "8 KM",
  wind_speed "3.1 meter/sec", wind_direction "180 degrees", cloud_coverage
  "40 percentage", and as sunrise and sunset the instants \<open>time.Unix\<close> makes of the two
  timestamps.
\<close>

theorem getWeather_fixture:
  "http (weather_url lat lon) = Decoded fixture_document \<longrightarrow>
     getWeather oor http lat lon =
       Returns (Some \<lparr> WeatherDescription = ''clear sky'',
                 Temperature = ''15.3 Celsius'',
                 WeatherType = ''moderate'',
                 Visibility = ''8 KM'',
                 WindSpeed = ''3.1 meter/sec'',
                 WindDirection = ''180 degrees'',
                 CloudCoverage = ''40 percentage'',
                 Sunrise = time_Unix 1700000000 0,
                 Sunset = time_Unix 1700040000 0 \<rparr>, None)"
  by (simp add: getWeather_def fixture_summary)

theorem getWeather_fixture_witness:
  "replies_with fixture_document (weather_url (Finite 1) (Finite 2)) = Decoded fixture_document \<and>
   getWeather oor_amd64 (replies_with fixture_document) (Finite 1) (Finite 2) =
       Returns (Some \<lparr> WeatherDescription = ''clear sky'',
                 Temperature = ''15.3 Celsius'',
                 WeatherType = ''moderate'',
                 Visibility = ''8 KM'',
                 WindSpeed = ''3.1 meter/sec'',
                 WindDirection = ''180 degrees'',
                 CloudCoverage = ''40 percentage'',
                 Sunrise = time_Unix 1700000000 0,
                 Sunset = time_Unix 1700040000 0 \<rparr>, None)"
  using getWeather_fixture [of "replies_with fixture_document" "Finite 1" "Finite 2" oor_amd64]
  by (simp add: replies_with_def)

subsection \<open>The request URL\<close>

lemma digit_char_is_digit: "d < 10 \<Longrightarrow> is_digit (digit_char d)"
proof -
  assume "d < 10"
  then have "d = 0 \<or> d = 1 \<or> d = 2 \<or> d = 3 \<or> d = 4 \<or> d = 5 \<or> d = 6 \<or> d = 7 \<or> d = 8 \<or> d = 9"
    by arith
  then show ?thesis
    by (elim disjE) (simp_all add: digit_char_def is_digit_def)
qed

lemma fmt_nat_digits: "fmt_nat n \<noteq> [] \<and> list_all is_digit (fmt_nat n)"
proof (induction n rule: fmt_nat.induct)
  case (1 n)
  show ?case
  proof (cases "n < 10")
    case True
    then show ?thesis
      by (subst (1 2) fmt_nat.simps) (simp add: digit_char_is_digit)
  next
    case False
    with 1 show ?thesis
      by (subst (1 2) fmt_nat.simps) (simp add: digit_char_is_digit)
  qed
qed

lemma fmt_nat_length: "0 < k \<Longrightarrow> n < 10 ^ k \<Longrightarrow> length (fmt_nat n) \<le> k"
proof (induction n arbitrary: k rule: fmt_nat.induct)
  case (1 n)
  show ?case
  proof (cases "n < 10")
    case True
    with 1(2) show ?thesis
      by (subst fmt_nat.simps) simp
  next
    case False
    obtain j where k: "k = Suc j"
      using 1(2) by (cases k) simp_all
    have "0 < j"
    proof (rule ccontr)
      assume "\<not> 0 < j"
      with k 1(3) False show False by simp
    qed
    moreover have "n div 10 < 10 ^ j"
      using 1(3) k by (simp add: less_mult_imp_div_less mult.commute)
    ultimately have "length (fmt_nat (n div 10)) \<le> j"
      using 1(1) [OF False] by blast
    with False k show ?thesis
      by (subst fmt_nat.simps) simp
  qed
qed

lemma pad6_digits:
  assumes "list_all is_digit s" and "length s \<le> 6"
  shows "length (pad6 s) = 6 \<and> list_all is_digit (pad6 s)"
proof -
  have zero: "is_digit (CHR ''0'')" by (simp add: is_digit_def)
  show ?thesis
    using assms zero by (auto simp: pad6_def list_all_iff)
qed

lemma six_decimals_shape:
  assumes ip: "ip \<noteq> []" "list_all is_digit ip"
    and fr: "length fr = 6" "list_all is_digit fr"
  shows "six_decimals (ip @ ''.'' @ fr)" and "six_decimals (CHR ''-'' # ip @ ''.'' @ fr)"
proof -
  have nd: "\<not> is_digit (CHR ''.'')" "\<not> is_digit (CHR ''-'')"
    by (simp_all add: is_digit_def)
  have all: "\<forall>c \<in> set ip. is_digit c"
    using ip(2) by (simp add: list_all_iff)
  have tw: "takeWhile is_digit (ip @ CHR ''.'' # fr) = ip"
    using all nd(1) by (simp add: takeWhile_tail)
  have dw: "dropWhile is_digit (ip @ CHR ''.'' # fr) = CHR ''.'' # fr"
    using all nd(1) by (simp add: dropWhile_append3)
  obtain c cs where c: "ip = c # cs"
    using ip(1) by (cases ip) simp_all
  then have "is_digit c" using all by simp
  then have cm: "c \<noteq> CHR ''-''" using nd(2) by auto
  show "six_decimals (CHR ''-'' # ip @ ''.'' @ fr)"
    using tw dw ip(1) fr by (simp add: six_decimals_def)
  have "six_decimals (c # cs @ CHR ''.'' # fr)"
    using tw dw ip(1) fr cm c by (simp add: six_decimals_def)
  then show "six_decimals (ip @ ''.'' @ fr)"
    using c by simp
qed

lemma fmt_f6_six_decimals: "is_finite x \<Longrightarrow> six_decimals (fmt_f6 x)"
proof (cases x)
  case (Finite q)
  define r where "r = nat (round_half_even (\<bar>q\<bar> * 1000000))"
  have "r mod 1000000 < 10 ^ 6" by simp
  then have "length (fmt_nat (r mod 1000000)) \<le> 6"
    by (intro fmt_nat_length) simp_all
  then have fr: "length (pad6 (fmt_nat (r mod 1000000))) = 6"
    "list_all is_digit (pad6 (fmt_nat (r mod 1000000)))"
    using pad6_digits [of "fmt_nat (r mod 1000000)"] fmt_nat_digits by simp_all
  have ip: "fmt_nat (r div 1000000) \<noteq> []" "list_all is_digit (fmt_nat (r div 1000000))"
    using fmt_nat_digits by simp_all
  show ?thesis
    using six_decimals_shape [OF ip fr] Finite
    by (simp add: Let_def r_def [symmetric])
next
  case NegZero
  then show ?thesis
    by (simp add: six_decimals_def is_digit_def)
qed simp_all

text \<open>
  C9, amended. getWeather asks the upstream for one URL, that of the provider with the
  two coordinates printed by \<open>%.6f\<close>, the compiled-in key and \<open>units=metric\<close>: its
  result is the same for two upstreams that agree on that URL. For a finite latitude and
  longitude both are printed with exactly six decimal places.
\<close>

theorem weather_url_six_decimals:
  "weather_url lat lon =
     ''https://api.openweathermap.org/data/2.5/weather?lat='' @ fmt_f6 lat @ ''&lon='' @
       fmt_f6 lon @ ''&appid=346f820b8b57367bb052d099256c939d&units=metric'' \<and>
   (is_finite lat \<and> is_finite lon \<longrightarrow> six_decimals (fmt_f6 lat) \<and> six_decimals (fmt_f6 lon)) \<and>
   (http (weather_url lat lon) = http' (weather_url lat lon) \<longrightarrow>
      getWeather oor http lat lon = getWeather oor http' lat lon)"
proof -
  have url: "weather_url lat lon =
     ''https://api.openweathermap.org/data/2.5/weather?lat='' @ fmt_f6 lat @ ''&lon='' @
       fmt_f6 lon @ ''&appid=346f820b8b57367bb052d099256c939d&units=metric''"
    by (simp add: weather_url_def API_KEY_def)
  have six: "is_finite lat \<and> is_finite lon \<longrightarrow>
      six_decimals (fmt_f6 lat) \<and> six_decimals (fmt_f6 lon)"
    by (simp add: fmt_f6_six_decimals)
  have only: "http (weather_url lat lon) = http' (weather_url lat lon) \<longrightarrow>
      getWeather oor http lat lon = getWeather oor http' lat lon"
    by (simp add: getWeather_def)
  from url six only show ?thesis by blast
qed

lemma fmt_f6_lat: "fmt_f6 (Finite (103 / 2)) = ''51.500000''"
  by (simp add: round_half_even_def Let_def) (simp add: pad6_def fmt_nat.simps digit_char_def)

lemma fmt_f6_lon: "fmt_f6 (Finite (- 1 / 8)) = ''-0.125000''"
  by (simp add: round_half_even_def Let_def) (simp add: pad6_def fmt_nat.simps digit_char_def)

theorem weather_url_six_decimals_witness:
  "is_finite (Finite (103 / 2)) \<and> is_finite (Finite (- 1 / 8)) \<and>
   six_decimals (fmt_f6 (Finite (103 / 2))) \<and> six_decimals (fmt_f6 (Finite (- 1 / 8))) \<and>
   weather_url (Finite (103 / 2)) (Finite (- 1 / 8)) =
     ''https://api.openweathermap.org/data/2.5/weather?lat=51.500000&lon=-0.125000&appid=346f820b8b57367bb052d099256c939d&units=metric'' \<and>
   replies_with fixture_document (weather_url (Finite (103 / 2)) (Finite (- 1 / 8))) =
     only_at (weather_url (Finite (103 / 2)) (Finite (- 1 / 8))) (Decoded fixture_document)
       (weather_url (Finite (103 / 2)) (Finite (- 1 / 8))) \<and>
   getWeather oor_amd64 (replies_with fixture_document) (Finite (103 / 2)) (Finite (- 1 / 8)) =
     getWeather oor_amd64
       (only_at (weather_url (Finite (103 / 2)) (Finite (- 1 / 8))) (Decoded fixture_document))
       (Finite (103 / 2)) (Finite (- 1 / 8))"
proof -
  have same:
    "replies_with fixture_document (weather_url (Finite (103 / 2)) (Finite (- 1 / 8))) =
     only_at (weather_url (Finite (103 / 2)) (Finite (- 1 / 8))) (Decoded fixture_document)
       (weather_url (Finite (103 / 2)) (Finite (- 1 / 8)))"
    by (simp add: replies_with_def only_at_def)
  have url: "weather_url (Finite (103 / 2)) (Finite (- 1 / 8)) =
     ''https://api.openweathermap.org/data/2.5/weather?lat=51.500000&lon=-0.125000&appid=346f820b8b57367bb052d099256c939d&units=metric''"
    unfolding weather_url_def API_KEY_def fmt_f6_lat fmt_f6_lon by simp
  have fin: "is_finite (Finite (103 / 2)) \<and> is_finite (Finite (- 1 / 8))"
    by simp
  from same url fin
    weather_url_six_decimals
      [of "Finite (103 / 2)" "Finite (- 1 / 8)" "replies_with fixture_document"
          "only_at (weather_url (Finite (103 / 2)) (Finite (- 1 / 8))) (Decoded fixture_document)"
          oor_amd64]
  show ?thesis by blast
qed

text \<open>
  C9 as stated fails: a coordinate that is a NaN (the handler accepts \<open>lat=NaN\<close>, which \<open>strconv.ParseFloat\<close>
  reads as one) is printed without any decimal place.
\<close>

theorem weather_url_nan_counterexample:
  "weather_url NaN (Finite 5) =
     ''https://api.openweathermap.org/data/2.5/weather?lat=NaN&lon=5.000000&appid=346f820b8b57367bb052d099256c939d&units=metric'' \<and>
   \<not> six_decimals (fmt_f6 NaN)"
proof -
  have zeros: "replicate 5 (CHR ''0'') = ''00000''"
    by (simp add: eval_nat_numeral)
  have five: "fmt_f6 (Finite 5) = ''5.000000''"
    by (simp add: round_half_even_def Let_def)
      (simp add: pad6_def fmt_nat.simps digit_char_def zeros)
  have nan: "\<not> six_decimals (fmt_f6 NaN)"
    by (simp add: six_decimals_def is_digit_def)
  show ?thesis
    unfolding weather_url_def API_KEY_def five using nan by simp
qed

subsection \<open>What a successful extraction says of the document\<close>

lemma and_then_Inr:
  "and_then x f = Inr y \<longleftrightarrow> (\<exists>a. x = Inr a \<and> f a = Inr y)"
  by (cases x) simp_all

lemma assert_map_Inr: "assert_map v = Inr m \<longleftrightarrow> v = JObject m"
  by (cases v) auto

lemma assert_float64_Inr: "assert_float64 v = Inr x \<longleftrightarrow> v = JNumber x"
  by (cases v) auto

lemma assert_string_Inr: "assert_string v = Inr x \<longleftrightarrow> v = JString x"
  by (cases v) auto

lemma assert_slice_Inr: "assert_slice v = Inr xs \<longleftrightarrow> v = JArray xs"
  by (cases v) auto

lemma slice_index0_Inr: "slice_index0 xs = Inr x \<longleftrightarrow> (\<exists>others. xs = x # others)"
  by (cases xs) auto

lemmas assert_Inr = and_then_Inr assert_map_Inr assert_float64_Inr assert_string_Inr
  assert_slice_Inr slice_index0_Inr

lemma extractWeatherInfo_Inr:
  "extractWeatherInfo data = Inr (description, t) \<Longrightarrow>
   \<exists>first others mainData.
     map_index data ''weather'' = JArray (JObject first # others) \<and>
     map_index first ''description'' = JString description \<and>
     map_index data ''main'' = JObject mainData \<and> map_index mainData ''temp'' = JNumber t"
  by (auto simp: extractWeatherInfo_def assert_Inr)

lemma extractWeatherInfo_temp:
  "extractWeatherInfo data = Inr (description, t) \<Longrightarrow>
   \<exists>mainData. map_index data ''main'' = JObject mainData \<and> map_index mainData ''temp'' = JNumber t"
  using extractWeatherInfo_Inr by blast

lemma extractVisibility_Inr:
  "extractVisibility oor data = Inr vis \<Longrightarrow>
   \<exists>v. map_index data ''visibility'' = JNumber v \<and>
       vis = fmt_int (float64_to_int oor v sdiv 1000) @ '' KM''"
  by (auto simp: extractVisibility_def assert_Inr)

lemma extractWindInfo_Inr:
  "extractWindInfo oor data = Inr (ws, wdir) \<Longrightarrow>
   \<exists>windData s d. map_index data ''wind'' = JObject windData \<and>
       map_index windData ''speed'' = JNumber s \<and> map_index windData ''deg'' = JNumber d \<and>
       ws = fmt_v_float s @ '' meter/sec'' \<and>
       wdir = fmt_int (float64_to_int oor d) @ '' degrees''"
  by (auto simp: extractWindInfo_def assert_Inr)

lemma extractCloudCoverage_Inr:
  "extractCloudCoverage oor data = Inr cc \<Longrightarrow>
   \<exists>cloudData c. map_index data ''clouds'' = JObject cloudData \<and>
       map_index cloudData ''all'' = JNumber c \<and>
       cc = fmt_int (float64_to_int oor c) @ '' percentage''"
  by (auto simp: extractCloudCoverage_def assert_Inr)

lemma extractSunriseSunset_Inr:
  "extractSunriseSunset oor data = Inr (sunrise, sunset) \<Longrightarrow>
   \<exists>sysData sr ss. map_index data ''sys'' = JObject sysData \<and>
       map_index sysData ''sunrise'' = JNumber sr \<and> map_index sysData ''sunset'' = JNumber ss \<and>
       sunrise = time_Unix (float64_to_int oor sr) 0 \<and>
       sunset = time_Unix (float64_to_int oor ss) 0"
  by (auto simp: extractSunriseSunset_def assert_Inr)

lemma build_summary_Inr:
  assumes "build_summary oor data = Inr w"
  shows "\<exists>description t vis ws wdir cc sunrise sunset.
     extractWeatherInfo data = Inr (description, t) \<and> extractVisibility oor data = Inr vis \<and>
     extractWindInfo oor data = Inr (ws, wdir) \<and> extractCloudCoverage oor data = Inr cc \<and>
     extractSunriseSunset oor data = Inr (sunrise, sunset) \<and>
     w = \<lparr> WeatherDescription = description,
           Temperature = fmt_v_float t @ '' Celsius'',
           WeatherType = classifyWeather t,
           Visibility = vis,
           WindSpeed = ws,
           WindDirection = wdir,
           CloudCoverage = cc,
           Sunrise = sunrise,
           Sunset = sunset \<rparr>"
  using assms
  by (cases "extractWeatherInfo data"; cases "extractVisibility oor data";
      cases "extractWindInfo oor data"; cases "extractCloudCoverage oor data";
      cases "extractSunriseSunset oor data")
    (auto simp: build_summary_def split: prod.splits)

lemma build_summary_populated:
  assumes "build_summary oor data = Inr w"
  shows "populated_from oor data w"
proof -
  from assms obtain description t vis ws wdir cc sunrise sunset where
    ex: "extractWeatherInfo data = Inr (description, t)" "extractVisibility oor data = Inr vis"
      "extractWindInfo oor data = Inr (ws, wdir)" "extractCloudCoverage oor data = Inr cc"
      "extractSunriseSunset oor data = Inr (sunrise, sunset)"
    and w: "w = \<lparr> WeatherDescription = description,
           Temperature = fmt_v_float t @ '' Celsius'',
           WeatherType = classifyWeather t,
           Visibility = vis,
           WindSpeed = ws,
           WindDirection = wdir,
           CloudCoverage = cc,
           Sunrise = sunrise,
           Sunset = sunset \<rparr>"
    using build_summary_Inr by blast
  from ex(1) obtain first others mainData where
    i: "map_index data ''weather'' = JArray (JObject first # others)"
      "map_index first ''description'' = JString description"
      "map_index data ''main'' = JObject mainData" "map_index mainData ''temp'' = JNumber t"
    using extractWeatherInfo_Inr by blast
  from ex(2) obtain v where
    v: "map_index data ''visibility'' = JNumber v"
      "vis = fmt_int (float64_to_int oor v sdiv 1000) @ '' KM''"
    using extractVisibility_Inr by blast
  from ex(3) obtain windData s d where
    wi: "map_index data ''wind'' = JObject windData" "map_index windData ''speed'' = JNumber s"
      "map_index windData ''deg'' = JNumber d" "ws = fmt_v_float s @ '' meter/sec''"
      "wdir = fmt_int (float64_to_int oor d) @ '' degrees''"
    using extractWindInfo_Inr by blast
  from ex(4) obtain cloudData c where
    c: "map_index data ''clouds'' = JObject cloudData" "map_index cloudData ''all'' = JNumber c"
      "cc = fmt_int (float64_to_int oor c) @ '' percentage''"
    using extractCloudCoverage_Inr by blast
  from ex(5) obtain sysData sr ss where
    su: "map_index data ''sys'' = JObject sysData" "map_index sysData ''sunrise'' = JNumber sr"
      "map_index sysData ''sunset'' = JNumber ss" "sunrise = time_Unix (float64_to_int oor sr) 0"
      "sunset = time_Unix (float64_to_int oor ss) 0"
    using extractSunriseSunset_Inr by blast
  show ?thesis
    by (simp add: populated_from_def i v wi c su w)
qed

text \<open>
  Where a place of the document is empty or holds a value of another type, no summary is
  built: the extraction panics.
\<close>

lemma not_populated_panics:
  "(\<forall>w. \<not> populated_from oor data w) \<Longrightarrow> \<exists>p. build_summary oor data = Inl p"
  using build_summary_populated by (cases "build_summary oor data") auto

subsection \<open>Failures of the fetcher\<close>

lemma getWeather_cases:
  "(\<exists>e. getWeather oor http lat lon = Returns (None, Some e)) \<or>
   (\<exists>p. getWeather oor http lat lon = Panics p) \<or>
   (\<exists>data w. http (weather_url lat lon) = Decoded data \<and> populated_from oor data w \<and>
      getWeather oor http lat lon = Returns (Some w, None))"
proof (cases "http (weather_url lat lon)")
  case (GetFailed e)
  then show ?thesis by (simp add: getWeather_def)
next
  case (DecodeFailed e)
  then show ?thesis by (simp add: getWeather_def)
next
  case (Decoded data)
  show ?thesis
  proof (cases "build_summary oor data")
    case (Inl p)
    with Decoded show ?thesis by (simp add: getWeather_def)
  next
    case (Inr w)
    then have "populated_from oor data w" by (rule build_summary_populated)
    with Decoded Inr show ?thesis by (simp add: getWeather_def)
  qed
qed

text \<open>
  C8. For every coordinate pair, getWeather either returns, with a nil error, a summary
  populated from the decoded reply (the reply holds a value of the expected type at each
  of the eight places read, and each of the nine fields is made of the value at its
  place), or it returns no summary (nil, with the error), or it does not return (a
  panic). getWeatherWithContext hands its caller the populated summary, or nil with an
  error, or nothing at all (the program is terminated). On a reply that misses a place,
  such as one without the \<open>wind\<close> key, no summary comes back.
\<close>

theorem fetcher_all_or_nothing:
  "((\<exists>e. getWeather oor http lat lon = Returns (None, Some e)) \<or>
    (\<exists>p. getWeather oor http lat lon = Panics p) \<or>
    (\<exists>data w. http (weather_url lat lon) = Decoded data \<and> populated_from oor data w \<and>
       getWeather oor http lat lon = Returns (Some w, None))) \<and>
   ((\<exists>e. result (getWeatherWithContext oor http deadline_first lat lon) = Some (None, Some e)) \<or>
    (result (getWeatherWithContext oor http deadline_first lat lon) = None \<and>
       process_exits (getWeatherWithContext oor http deadline_first lat lon)) \<or>
    (\<exists>data w. http (weather_url lat lon) = Decoded data \<and> populated_from oor data w \<and>
       result (getWeatherWithContext oor http deadline_first lat lon) = Some (Some w, None))) \<and>
   (\<exists>p. getWeather oor (replies_with no_wind_document) lat lon = Panics p) \<and>
   populated_from oor fixture_document
     \<lparr> WeatherDescription = ''clear sky'',
       Temperature = ''15.3 Celsius'',
       WeatherType = ''moderate'',
       Visibility = ''8 KM'',
       WindSpeed = ''3.1 meter/sec'',
       WindDirection = ''180 degrees'',
       CloudCoverage = ''40 percentage'',
       Sunrise = time_Unix 1700000000 0,
       Sunset = time_Unix 1700040000 0 \<rparr>"
proof -
  let ?g = "getWeather oor http lat lon"
  let ?r = "getWeatherWithContext oor http deadline_first lat lon"
  have g: "(\<exists>e. ?g = Returns (None, Some e)) \<or> (\<exists>p. ?g = Panics p) \<or>
    (\<exists>data w. http (weather_url lat lon) = Decoded data \<and> populated_from oor data w \<and>
       ?g = Returns (Some w, None))"
    by (rule getWeather_cases)
  have r: "(\<exists>e. result ?r = Some (None, Some e)) \<or> (result ?r = None \<and> process_exits ?r) \<or>
    (\<exists>data w. http (weather_url lat lon) = Decoded data \<and> populated_from oor data w \<and>
       result ?r = Some (Some w, None))"
    using g by (cases deadline_first) (auto simp: getWeatherWithContext_def)
  have "\<forall>w. \<not> populated_from oor no_wind_document w"
    by (simp add: populated_from_def no_wind_document_def map_index_def)
  then obtain p where "build_summary oor no_wind_document = Inl p"
    using not_populated_panics by blast
  then have n: "\<exists>p. getWeather oor (replies_with no_wind_document) lat lon = Panics p"
    by (simp add: getWeather_def replies_with_def)
  have f: "populated_from oor fixture_document
     \<lparr> WeatherDescription = ''clear sky'',
       Temperature = ''15.3 Celsius'',
       WeatherType = ''moderate'',
       Visibility = ''8 KM'',
       WindSpeed = ''3.1 meter/sec'',
       WindDirection = ''180 degrees'',
       CloudCoverage = ''40 percentage'',
       Sunrise = time_Unix 1700000000 0,
       Sunset = time_Unix 1700040000 0 \<rparr>"
    using build_summary_populated [OF fixture_summary] .
  from g r n f show ?thesis by blast
qed

subsection \<open>What the summary's texts render\<close>

lemma getWeather_summary:
  "getWeather oor http lat lon = Returns (Some w, err) \<Longrightarrow>
   \<exists>data. http (weather_url lat lon) = Decoded data \<and> build_summary oor data = Inr w"
  by (auto simp: getWeather_def split: upstream.splits sum.splits)

text \<open>
  C3, amended. The weather type of a summary that getWeather returns is classifyWeather
  of the reply's \<open>main.temp\<close> and of nothing else. The temperature and the wind speed are
  printed as received (\<open>%v\<close> on the float64). The wind direction and the cloud coverage
  are first converted to an int, which drops their fraction, and the visibility is
  converted to an int and divided by 1000; the texts render these integers.
\<close>

theorem summary_renders_document:
  "getWeather oor http lat lon = Returns (Some w, err) \<longrightarrow>
     (\<exists>data mainData t v windData s d cloudData c.
        http (weather_url lat lon) = Decoded data \<and>
        map_index data ''main'' = JObject mainData \<and> map_index mainData ''temp'' = JNumber t \<and>
        map_index data ''visibility'' = JNumber v \<and>
        map_index data ''wind'' = JObject windData \<and>
        map_index windData ''speed'' = JNumber s \<and> map_index windData ''deg'' = JNumber d \<and>
        map_index data ''clouds'' = JObject cloudData \<and> map_index cloudData ''all'' = JNumber c \<and>
        WeatherType w = classifyWeather t \<and>
        Temperature w = fmt_v_float t @ '' Celsius'' \<and>
        WindSpeed w = fmt_v_float s @ '' meter/sec'' \<and>
        WindDirection w = fmt_int (float64_to_int oor d) @ '' degrees'' \<and>
        CloudCoverage w = fmt_int (float64_to_int oor c) @ '' percentage'' \<and>
        Visibility w = fmt_int (float64_to_int oor v sdiv 1000) @ '' KM'')"
proof
  assume "getWeather oor http lat lon = Returns (Some w, err)"
  then obtain data where
    http: "http (weather_url lat lon) = Decoded data" and bs: "build_summary oor data = Inr w"
    using getWeather_summary by blast
  from bs obtain desc t vis ws wdir cc sunrise sunset where
    ex: "extractWeatherInfo data = Inr (desc, t)" "extractVisibility oor data = Inr vis"
      "extractWindInfo oor data = Inr (ws, wdir)" "extractCloudCoverage oor data = Inr cc"
    and w: "w = \<lparr> WeatherDescription = desc,
           Temperature = fmt_v_float t @ '' Celsius'',
           WeatherType = classifyWeather t,
           Visibility = vis,
           WindSpeed = ws,
           WindDirection = wdir,
           CloudCoverage = cc,
           Sunrise = sunrise,
           Sunset = sunset \<rparr>"
    using build_summary_Inr by blast
  from w have fields: "WeatherType w = classifyWeather t"
    "Temperature w = fmt_v_float t @ '' Celsius''"
    "Visibility w = vis" "WindSpeed w = ws" "WindDirection w = wdir" "CloudCoverage w = cc"
    by simp_all
  from ex(1) obtain mainData where
    m: "map_index data ''main'' = JObject mainData" "map_index mainData ''temp'' = JNumber t"
    using extractWeatherInfo_temp by blast
  from ex(2) obtain v where
    v: "map_index data ''visibility'' = JNumber v"
      "vis = fmt_int (float64_to_int oor v sdiv 1000) @ '' KM''"
    using extractVisibility_Inr by blast
  from ex(3) obtain windData s d where
    wi: "map_index data ''wind'' = JObject windData" "map_index windData ''speed'' = JNumber s"
      "map_index windData ''deg'' = JNumber d" "ws = fmt_v_float s @ '' meter/sec''"
      "wdir = fmt_int (float64_to_int oor d) @ '' degrees''"
    using extractWindInfo_Inr by blast
  from ex(4) obtain cloudData c where
    c: "map_index data ''clouds'' = JObject cloudData" "map_index cloudData ''all'' = JNumber c"
      "cc = fmt_int (float64_to_int oor c) @ '' percentage''"
    using extractCloudCoverage_Inr by blast
  from http m v wi c fields
  show "\<exists>data mainData t v windData s d cloudData c.
        http (weather_url lat lon) = Decoded data \<and>
        map_index data ''main'' = JObject mainData \<and> map_index mainData ''temp'' = JNumber t \<and>
        map_index data ''visibility'' = JNumber v \<and>
        map_index data ''wind'' = JObject windData \<and>
        map_index windData ''speed'' = JNumber s \<and> map_index windData ''deg'' = JNumber d \<and>
        map_index data ''clouds'' = JObject cloudData \<and> map_index cloudData ''all'' = JNumber c \<and>
        WeatherType w = classifyWeather t \<and>
        Temperature w = fmt_v_float t @ '' Celsius'' \<and>
        WindSpeed w = fmt_v_float s @ '' meter/sec'' \<and>
        WindDirection w = fmt_int (float64_to_int oor d) @ '' degrees'' \<and>
        CloudCoverage w = fmt_int (float64_to_int oor c) @ '' percentage'' \<and>
        Visibility w = fmt_int (float64_to_int oor v sdiv 1000) @ '' KM''"
    by blast
qed

theorem summary_renders_document_witness:
  "getWeather oor_amd64 (replies_with fixture_document) (Finite 1) (Finite 2) =
     Returns (Some \<lparr> WeatherDescription = ''clear sky'',
           Temperature = ''15.3 Celsius'',
           WeatherType = ''moderate'',
           Visibility = ''8 KM'',
           WindSpeed = ''3.1 meter/sec'',
           WindDirection = ''180 degrees'',
           CloudCoverage = ''40 percentage'',
           Sunrise = time_Unix 1700000000 0,
           Sunset = time_Unix 1700040000 0 \<rparr>, None) \<and>
   (\<exists>data mainData t v windData s d cloudData c.
        replies_with fixture_document (weather_url (Finite 1) (Finite 2)) = Decoded data \<and>
        map_index data ''main'' = JObject mainData \<and> map_index mainData ''temp'' = JNumber t \<and>
        map_index data ''visibility'' = JNumber v \<and>
        map_index data ''wind'' = JObject windData \<and>
        map_index windData ''speed'' = JNumber s \<and> map_index windData ''deg'' = JNumber d \<and>
        map_index data ''clouds'' = JObject cloudData \<and> map_index cloudData ''all'' = JNumber c \<and>
        ''moderate'' = classifyWeather t \<and>
        ''15.3 Celsius'' = fmt_v_float t @ '' Celsius'' \<and>
        ''3.1 meter/sec'' = fmt_v_float s @ '' meter/sec'' \<and>
        ''180 degrees'' = fmt_int (float64_to_int oor_amd64 d) @ '' degrees'' \<and>
        ''40 percentage'' = fmt_int (float64_to_int oor_amd64 c) @ '' percentage'' \<and>
        ''8 KM'' = fmt_int (float64_to_int oor_amd64 v sdiv 1000) @ '' KM'')"
proof -
  let ?w = "\<lparr> WeatherDescription = ''clear sky'',
           Temperature = ''15.3 Celsius'',
           WeatherType = ''moderate'',
           Visibility = ''8 KM'',
           WindSpeed = ''3.1 meter/sec'',
           WindDirection = ''180 degrees'',
           CloudCoverage = ''40 percentage'',
           Sunrise = time_Unix 1700000000 0,
           Sunset = time_Unix 1700040000 0 \<rparr>"
  have g: "getWeather oor_amd64 (replies_with fixture_document) (Finite 1) (Finite 2) =
      Returns (Some ?w, None)"
    by (simp add: getWeather_def replies_with_def fixture_summary)
  then have "\<exists>data mainData t v windData s d cloudData c.
        replies_with fixture_document (weather_url (Finite 1) (Finite 2)) = Decoded data \<and>
        map_index data ''main'' = JObject mainData \<and> map_index mainData ''temp'' = JNumber t \<and>
        map_index data ''visibility'' = JNumber v \<and>
        map_index data ''wind'' = JObject windData \<and>
        map_index windData ''speed'' = JNumber s \<and> map_index windData ''deg'' = JNumber d \<and>
        map_index data ''clouds'' = JObject cloudData \<and> map_index cloudData ''all'' = JNumber c \<and>
        WeatherType ?w = classifyWeather t \<and>
        Temperature ?w = fmt_v_float t @ '' Celsius'' \<and>
        WindSpeed ?w = fmt_v_float s @ '' meter/sec'' \<and>
        WindDirection ?w = fmt_int (float64_to_int oor_amd64 d) @ '' degrees'' \<and>
        CloudCoverage ?w = fmt_int (float64_to_int oor_amd64 c) @ '' percentage'' \<and>
        Visibility ?w = fmt_int (float64_to_int oor_amd64 v sdiv 1000) @ '' KM''"
    using summary_renders_document
      [of oor_amd64 "replies_with fixture_document" "Finite 1" "Finite 2" ?w None]
    by blast
  then show ?thesis
    using g by simp
qed

lemma three_text: "fmt_v_float (Finite 3) = ''3''"
proof -
  have l2: "floor_log 2 3 = 1" and l10: "floor_log 10 3 = 0"
    by (simp_all add: floor_log_def count_digits.simps)
  have "shortest_decimal 3 0 1 = (3, 0)"
    by (subst shortest_decimal.simps) (simp add: eval_f64 l2)
  then have sd: "shortest_digits 3 = (3, 0)"
    by (simp only: shortest_digits_def l10)
  show ?thesis
    by (simp add: sd fmt_nat.simps digit_char_def strip_trailing_zeros_def fmt_g_shortest_def)
qed

lemma half_degree_text: "fmt_v_float (Finite (361 / 2)) = ''180.5''"
proof -
  have l2: "floor_log 2 (361 / 2) = 7" and l10: "floor_log 10 (361 / 2) = 2"
    by (simp_all add: floor_log_def count_digits.simps)
  have "shortest_decimal (361 / 2) 2 1 = (1805, - 1)"
    apply (subst shortest_decimal.simps)
    apply (simp add: eval_f64 l2)
    apply (subst shortest_decimal.simps)
    apply (simp add: eval_f64 l2)
    apply (subst shortest_decimal.simps)
    apply (simp add: eval_f64 l2)
    apply (subst shortest_decimal.simps)
    apply (simp add: eval_f64 l2)
    done
  then have sd: "shortest_digits (361 / 2) = (1805, - 1)"
    by (simp only: shortest_digits_def l10)
  show ?thesis
    by (simp add: sd fmt_nat.simps digit_char_def strip_trailing_zeros_def fmt_g_shortest_def)
qed

text \<open>
  C3 as stated fails: the wind direction 180.5 is received and "180 degrees" is written, where \<open>%v\<close> on the
  value received gives "180.5"; 8999 metres are written "8 KM" and 40.75 percent
  "40 percentage".
\<close>

theorem formatting_alters_values_counterexample:
  "extractWindInfo oor_amd64 fractional_document = Inr (''3 meter/sec'', ''180 degrees'') \<and>
   map_index fractional_document ''wind'' =
     JObject [''speed'' \<mapsto> JNumber (Finite 3), ''deg'' \<mapsto> JNumber (Finite (361 / 2))] \<and>
   fmt_v_float (Finite (361 / 2)) @ '' degrees'' = ''180.5 degrees'' \<and>
   extractVisibility oor_amd64 fractional_document = Inr ''8 KM'' \<and>
   extractCloudCoverage oor_amd64 fractional_document = Inr ''40 percentage''"
proof -
  have wind:
    "extractWindInfo oor_amd64 fractional_document = Inr (''3 meter/sec'', ''180 degrees'')"
    by (simp add: extractWindInfo_def fractional_document_def map_index_def eval_int three_text
        del: fmt_v_float.simps)
  have received: "map_index fractional_document ''wind'' =
     JObject [''speed'' \<mapsto> JNumber (Finite 3), ''deg'' \<mapsto> JNumber (Finite (361 / 2))]"
    by (simp add: fractional_document_def map_index_def)
  have vis: "extractVisibility oor_amd64 fractional_document = Inr ''8 KM''"
    by (simp add: extractVisibility_def fractional_document_def map_index_def eval_int)
  have clouds: "extractCloudCoverage oor_amd64 fractional_document = Inr ''40 percentage''"
    by (simp add: extractCloudCoverage_def fractional_document_def map_index_def eval_int)
  from wind received vis clouds show ?thesis
    by (simp add: half_degree_text del: fmt_v_float.simps)
qed

subsection \<open>The texts that strconv.ParseFloat rejects\<close>

lemmas eval_parse = ParseFloat_def inf_prefix_def ascii_lower_def readFloat_def strip_sign_def
  is_digit_def is_hex_letter_def digit_value_def finish_float_def ErrSyntax_def Let_def

lemma small_logs: "floor_log 2 1 = 0" "floor_log 2 2 = 1" "floor_log 2 5 = 2"
  by (simp_all add: floor_log_def count_digits.simps)

lemma small_floats:
  "nearest_float64 1 = Finite 1" "nearest_float64 2 = Finite 2" "nearest_float64 5 = Finite 5"
  by (simp_all add: nearest_float64_def eval_f64 small_logs round_half_even_def)

lemma ParseFloat_values:
  "ParseFloat ''abc'' = Inl ErrSyntax"
  "ParseFloat [] = Inl ErrSyntax"
  "ParseFloat ''NaN'' = Inr NaN"
  "ParseFloat ''5'' = Inr (Finite 5)"
  "ParseFloat ''1'' = Inr (Finite 1)"
  "ParseFloat ''2'' = Inr (Finite 2)"
  by (simp_all add: eval_parse pow_int_def small_floats)





subsection \<open>The handler's replies\<close>






subsection \<open>A reply without the wind key\<close>

lemma no_wind_panics: "build_summary oor no_wind_document = Inl InterfaceConversion"
proof -
  have info: "extractWeatherInfo no_wind_document = Inr (''clear sky'', nearest_float64 (153 / 10))"
    by (simp add: extractWeatherInfo_def no_wind_document_def map_index_def)
  have vis: "extractVisibility oor no_wind_document = Inr ''8 KM''"
    by (simp add: extractVisibility_def no_wind_document_def map_index_def eval_int)
  have wind: "extractWindInfo oor no_wind_document = Inl InterfaceConversion"
    by (simp add: extractWindInfo_def no_wind_document_def map_index_def)
  show ?thesis
    by (simp add: build_summary_def info vis wind)
qed

text \<open>
  C1, on the code. With a reply that has no \<open>wind\<close> key, the type assertion in
  extractWindInfo panics in the goroutine that getWeatherWithContext started; nothing
  recovers it, so the program is terminated. The handler writes no reply when the panic
  comes before the deadline, and the reply 500 when the deadline came first.
\<close>

theorem missing_wind_terminates_process:
  "getWeather oor (replies_with no_wind_document) lat lon = Panics InterfaceConversion \<and>
   WeatherHandler oor utc_offset (replies_with no_wind_document) False query_1_2 =
     \<lparr> result = None, process_exits = True \<rparr> \<and>
   WeatherHandler oor utc_offset (replies_with no_wind_document) True query_1_2 =
     \<lparr> result = Some \<lparr> status = 500,
                         body = Text (''Failed to fetch weather data'' @ [CHR 0x0A]) \<rparr>,
       process_exits = True \<rparr>"
proof -
  have g: "getWeather oor (replies_with no_wind_document) lat lon = Panics InterfaceConversion"
    for lat lon
    by (simp add: getWeather_def replies_with_def no_wind_panics)
  have q: "ParseFloat (query_Get query_1_2 ''lat'') = Inr (Finite 1)"
    "ParseFloat (query_Get query_1_2 ''lon'') = Inr (Finite 2)"
    by (simp_all add: query_Get_def query_1_2_def ParseFloat_values)
  show ?thesis
    by (simp add: g q WeatherHandler_def getWeatherWithContext_def http_Error_def)
qed

end
